theory Spec2Isabelle
  imports Main "HOL-Library.Sublist"
begin

section \<open>Strings and characters (std::string)\<close>

text \<open>
  A \<open>std::string\<close> is a list of byte-sized characters.  The three characters that
  cannot be written inside a string literal get a name.
\<close>

definition backslash :: char where
  "backslash = CHR 0x5C"

definition newline :: char where
  "newline = CHR 0x0A"

definition carriage_return :: char where
  "carriage_return = CHR 0x0D"

text \<open>\<open>tolower\<close> of the "C" locale, which \<open>std::regex::icase\<close> applies to both sides.\<close>

definition tolower_c :: "char \<Rightarrow> char" where
  "tolower_c c =
     (case map_of (zip ''ABCDEFGHIJKLMNOPQRSTUVWXYZ'' ''abcdefghijklmnopqrstuvwxyz'') c of
        Some l \<Rightarrow> l
      | None \<Rightarrow> c)"

text \<open>\<open>s.starts_with(p)\<close>, \<open>s.ends_with(p)\<close> and \<open>s.find(p) != npos\<close>.\<close>

definition starts_with :: "string \<Rightarrow> string \<Rightarrow> bool" where
  "starts_with s p = prefix p s"

definition ends_with :: "string \<Rightarrow> string \<Rightarrow> bool" where
  "ends_with s p = suffix p s"

definition contains_str :: "string \<Rightarrow> string \<Rightarrow> bool" where
  "contains_str s p = sublist p s"

text \<open>\<open>std::to_string\<close> on a non-negative count.\<close>

definition digit_char :: "nat \<Rightarrow> char" where
  "digit_char d = ''0123456789'' ! d"

function to_string :: "nat \<Rightarrow> string" where
  "to_string n = (if n < 10 then [digit_char n] else to_string (n div 10) @ [digit_char (n mod 10)])"
  by pat_completeness auto
termination
  by (relation "measure id") auto

declare to_string.simps [simp del]

section \<open>utils.cpp: the pattern matcher\<close>

subsection \<open>The regular expressions the glob translation can emit\<close>

text \<open>
  \<open>std::regex\<close> (ECMAScript grammar, flag \<open>icase\<close>) on the fragment that
  \<open>matches_glob_pattern\<close> builds: ordinary characters, a backslash followed by a syntax
  character, the dot, and the postfix star.  An ordinary character is compared after
  \<open>tolower\<close>; the dot accepts every character but the two line terminators.
\<close>

datatype re_atom = Lit char | AnyChar

datatype re_token = TAtom re_atom | TStar

datatype re_item = One re_atom | Star re_atom

definition regex_syntax_chars :: string where
  "regex_syntax_chars = ''^$.*+?()[]{}|'' @ [backslash]"

text \<open>
  The scanner.  \<open>None\<close> is returned for a \<open>regex_error\<close> (dangling backslash) and for
  anything outside the fragment (groups, brackets, braces, alternation, anchors, \<open>+\<close>,
  \<open>?\<close>, class escapes); \<open>regex_items_glob_tokens\<close> below shows that the translation
  never produces such an expression.
\<close>

fun regex_tokens :: "string \<Rightarrow> re_token list option" where
  "regex_tokens [] = Some []"
| "regex_tokens (c # s) =
     (if c = backslash then
        (case s of
           [] \<Rightarrow> None
         | d # s' \<Rightarrow>
             if d \<in> set regex_syntax_chars
             then map_option ((#) (TAtom (Lit d))) (regex_tokens s')
             else None)
      else if c = CHR ''*'' then map_option ((#) TStar) (regex_tokens s)
      else if c = CHR ''.'' then map_option ((#) (TAtom AnyChar)) (regex_tokens s)
      else if c \<in> set regex_syntax_chars then None
      else map_option ((#) (TAtom (Lit c))) (regex_tokens s))"

text \<open>The parser: a star binds to the atom before it; a star with no atom is an error.\<close>

fun regex_items :: "re_token list \<Rightarrow> re_item list option" where
  "regex_items [] = Some []"
| "regex_items (TAtom a # TStar # ts) = map_option ((#) (Star a)) (regex_items ts)"
| "regex_items (TAtom a # ts) = map_option ((#) (One a)) (regex_items ts)"
| "regex_items (TStar # ts) = None"

text \<open>
  The constructor builds an automaton and throws \<open>regex_error\<close> (\<open>error_space\<close>) once
  it holds more than \<open>_GLIBCXX_REGEX_STATE_LIMIT\<close> states, the limit of the GNU
  library.  An atom takes one state and a star one more; four states frame the
  expression (the begin and the end of the match, the end of the alternative, the
  accepting state).
\<close>

definition regex_state_limit :: int where
  "regex_state_limit = 100000"

fun nfa_states :: "re_item list \<Rightarrow> int" where
  "nfa_states [] = 4"
| "nfa_states (One a # r) = 1 + nfa_states r"
| "nfa_states (Star a # r) = 2 + nfa_states r"

definition regex_compile :: "string \<Rightarrow> re_item list option" where
  "regex_compile s =
     (case regex_tokens s of
        None \<Rightarrow> None
      | Some ts \<Rightarrow>
          (case regex_items ts of
             None \<Rightarrow> None
           | Some r \<Rightarrow> if nfa_states r > regex_state_limit then None else Some r))"

fun atom_matches :: "re_atom \<Rightarrow> char \<Rightarrow> bool" where
  "atom_matches (Lit x) c = (tolower_c c = tolower_c x)"
| "atom_matches AnyChar c = (c \<noteq> newline \<and> c \<noteq> carriage_return)"

text \<open>\<open>std::regex_match\<close>: the whole input has to be consumed.\<close>

fun regex_match :: "string \<Rightarrow> re_item list \<Rightarrow> bool" where
  "regex_match [] [] = True"
| "regex_match (c # s) [] = False"
| "regex_match [] (One a # r) = False"
| "regex_match (c # s) (One a # r) = (atom_matches a c \<and> regex_match s r)"
| "regex_match [] (Star a # r) = regex_match [] r"
| "regex_match (c # s) (Star a # r) =
     (regex_match (c # s) r \<or> (atom_matches a c \<and> regex_match s (Star a # r)))"

subsection \<open>matches_glob_pattern and matches_pattern\<close>

text \<open>
  The loop \<open>while ((pos = regex_pattern.find("**", pos)) != npos)
  { regex_pattern.replace(pos, 2, ".*"); pos += 2; }\<close>: every occurrence of two stars,
  found from the left and without overlap, becomes a dot and a star.
\<close>

fun replace_double_star :: "string \<Rightarrow> string" where
  "replace_double_star (a # b # s) =
     (if a = CHR ''*'' \<and> b = CHR ''*''
      then CHR ''.'' # CHR ''*'' # replace_double_star s
      else a # replace_double_star (b # s))"
| "replace_double_star s = s"

text \<open>The characters of \<open>std::string("()[]{}.+^$|\\")\<close>.\<close>

definition escaped_chars :: string where
  "escaped_chars = ''()[]{}.+^$|'' @ [backslash]"

text \<open>One round of the loop \<open>for (char c : regex_pattern)\<close>: what is appended for \<open>c\<close>.\<close>

definition escape_char :: "char \<Rightarrow> string" where
  "escape_char c =
     (if c = CHR ''*'' \<or> c = CHR ''?'' then
        (if c = CHR ''*'' then ''.*'' else if c = CHR ''?'' then ''.'' else [])
      else if c \<in> set escaped_chars then backslash # [c]
      else [c])"

definition escape_glob :: "string \<Rightarrow> string" where
  "escape_glob regex_pattern = concat (map escape_char regex_pattern)"

text \<open>
  What the loop denotes, character by character: the tokens and the item that the
  appended text stands for.  Both are used only to reason about \<open>escape_glob\<close>.
\<close>

definition glob_tokens :: "char \<Rightarrow> re_token list" where
  "glob_tokens c =
     (if c = CHR ''*'' then [TAtom AnyChar, TStar]
      else if c = CHR ''?'' then [TAtom AnyChar]
      else [TAtom (Lit c)])"

definition glob_item :: "char \<Rightarrow> re_item" where
  "glob_item c =
     (if c = CHR ''*'' then Star AnyChar
      else if c = CHR ''?'' then One AnyChar
      else One (Lit c))"

definition glob_regex_source :: "string \<Rightarrow> string" where
  "glob_regex_source pattern =
     escape_glob (if contains_str pattern ''**'' then replace_double_star pattern else pattern)"

definition matches_glob_pattern :: "string \<Rightarrow> string \<Rightarrow> bool" where
  "matches_glob_pattern filename pattern =
     (case regex_compile (glob_regex_source pattern) of
        Some re \<Rightarrow> regex_match filename re
      | None \<Rightarrow> contains_str filename pattern)"

definition matches_pattern :: "string \<Rightarrow> string \<Rightarrow> bool" where
  "matches_pattern filename pattern =
     (if pattern = [] then True
      else if CHR ''*'' \<in> set pattern \<or> CHR ''?'' \<in> set pattern
        then matches_glob_pattern filename pattern
      else if hd pattern = CHR ''.'' then ends_with filename pattern
      else filename = pattern)"

subsection \<open>The glob of the specification\<close>



section \<open>std::filesystem::path on a POSIX system\<close>

text \<open>
  A path is kept as its native string.  The operations below are the ones the program
  uses, with the meaning they have where \<open>/\<close> is the only separator and there are no
  root names.
\<close>

type_synonym path = string

definition slash :: char where
  "slash = CHR ''/''"

text \<open>The pieces of a string between separators; \<open>cur\<close> is the piece being read, reversed.\<close>

fun path_segments :: "string \<Rightarrow> string \<Rightarrow> string list" where
  "path_segments cur [] = [rev cur]"
| "path_segments cur (c # s) =
     (if c = slash then rev cur # path_segments [] s else path_segments (c # cur) s)"

definition has_root_directory :: "path \<Rightarrow> bool" where
  "has_root_directory p = (p \<noteq> [] \<and> hd p = slash)"

text \<open>
  The elements of the relative part, as path iteration yields them: runs of separators
  count once, and a trailing separator after a filename adds an empty element.
\<close>

definition path_elements :: "path \<Rightarrow> string list" where
  "path_elements p =
     (let names = filter (\<lambda>seg. seg \<noteq> []) (path_segments [] p)
      in if names \<noteq> [] \<and> p \<noteq> [] \<and> last p = slash then names @ [[]] else names)"

text \<open>\<open>operator==\<close> on paths compares element by element, not the strings.\<close>

definition path_eq :: "path \<Rightarrow> path \<Rightarrow> bool" where
  "path_eq p q = (has_root_directory p = has_root_directory q \<and> path_elements p = path_elements q)"

text \<open>\<open>p.filename()\<close>: what follows the last separator.\<close>

definition filename_of :: "path \<Rightarrow> string" where
  "filename_of p = rev (takeWhile (\<lambda>c. c \<noteq> slash) (rev p))"

text \<open>
  \<open>p.parent_path()\<close>: \<open>p\<close> itself when it has no relative part; otherwise \<open>p\<close> without its
  last element and the separators before it, the root directory being kept.
\<close>

definition parent_path :: "path \<Rightarrow> path" where
  "parent_path p =
     (if path_elements p = [] then p
      else
        (let front = rev (dropWhile (\<lambda>c. c \<noteq> slash) (rev p));
             trimmed = rev (dropWhile (\<lambda>c. c = slash) (rev front))
         in if trimmed = [] then (if front = [] then [] else [slash]) else trimmed))"

text \<open>\<open>p / q\<close>: an absolute \<open>q\<close> replaces \<open>p\<close>; otherwise \<open>q\<close> is appended after a separator.\<close>

definition path_append :: "path \<Rightarrow> path \<Rightarrow> path" where
  "path_append p q =
     (if has_root_directory q then q
      else if p \<noteq> [] \<and> last p \<noteq> slash then p @ [slash] @ q
      else p @ q)"

section \<open>utils.cpp: the safety policy\<close>

definition system_dirs :: "string list" where
  "system_dirs =
     [''/bin'', ''/sbin'', ''/usr'', ''/etc'', ''/var'', ''/lib'', ''/opt'',
      ''C:'' @ [backslash] @ ''Windows'',
      ''C:'' @ [backslash] @ ''Program Files'',
      ''C:'' @ [backslash] @ ''Program Files (x86)'']"

text \<open>\<open>path_str.find(sys_dir) == 0\<close> holds exactly when \<open>sys_dir\<close> is a prefix.\<close>

fun is_system_directory_loop :: "string list \<Rightarrow> string \<Rightarrow> bool" where
  "is_system_directory_loop [] path_str = False"
| "is_system_directory_loop (sys_dir # rest) path_str =
     (if starts_with path_str sys_dir then True else is_system_directory_loop rest path_str)"

definition is_system_directory :: "path \<Rightarrow> bool" where
  "is_system_directory p = is_system_directory_loop system_dirs p"

definition is_safe_directory :: "path \<Rightarrow> bool" where
  "is_safe_directory p =
     (if path_eq p ''/'' \<or> path_eq p (''C:'' @ [backslash]) \<or> path_eq p (''D:'' @ [backslash])
      then False
      else if is_system_directory p then False
      else True)"

text \<open>\<open>expand_path\<close>; \<open>home\<close> is what \<open>std::getenv("HOME")\<close> returns.\<close>

definition expand_path :: "string option \<Rightarrow> string \<Rightarrow> path" where
  "expand_path home path_string =
     (if starts_with path_string ''~/'' then
        (case home of
           Some h \<Rightarrow> path_append h (drop 2 path_string)
         | None \<Rightarrow> path_string)
      else path_string)"

section \<open>The file system the handlers run against\<close>

text \<open>
  A library call either returns a value or throws a \<open>std::exception\<close>, kept as its
  \<open>what()\<close> text.
\<close>

datatype 'a outcome = Ok 'a | Throws string

text \<open>
  The operating system is a parameter: a state \<open>'fs\<close> and the library calls the program
  makes on it.  Queries leave the state alone; the four mutating calls return the state
  they leave behind, whether they throw or not.  \<open>fs_iterate\<close> and
  \<open>fs_iterate_recursive\<close> give the entries a \<open>directory_iterator\<close> or a
  \<open>recursive_directory_iterator\<close> yields, each with the answer of
  \<open>is_regular_file()\<close>, up to the end of the iteration or to the first
  \<open>filesystem_error\<close>.  \<open>time_start\<close> and \<open>time_end\<close> are the two clock readings
  of a handler.  What the handlers print to \<open>std::cerr\<close> under \<open>verbose\<close> is not part
  of the result and is left out.
\<close>

record 'fs filesystem =
  home_dir :: "string option"
  fs_exists :: "'fs \<Rightarrow> path \<Rightarrow> bool outcome"
  fs_is_directory :: "'fs \<Rightarrow> path \<Rightarrow> bool outcome"
  fs_iterate :: "'fs \<Rightarrow> path \<Rightarrow> (path \<times> bool) list"
  fs_iterate_recursive :: "'fs \<Rightarrow> path \<Rightarrow> (path \<times> bool) list"
  fs_rename :: "'fs \<Rightarrow> path \<Rightarrow> path \<Rightarrow> unit outcome \<times> 'fs"
  fs_copy_file :: "'fs \<Rightarrow> path \<Rightarrow> path \<Rightarrow> bool outcome \<times> 'fs"
  fs_remove :: "'fs \<Rightarrow> path \<Rightarrow> bool outcome \<times> 'fs"
  fs_create_directories :: "'fs \<Rightarrow> path \<Rightarrow> bool outcome \<times> 'fs"
  time_start :: nat
  time_end :: nat

section \<open>utils.cpp: the directory scanner\<close>

text \<open>
  The two tests before the \<open>try\<close> block are not guarded: an exception of \<open>exists\<close> or
  \<open>is_directory\<close> leaves the function.  Inside the block a \<open>filesystem_error\<close> ends
  the loop and the files collected so far are returned.
\<close>

definition scan_with ::
  "('fs \<Rightarrow> path \<Rightarrow> (path \<times> bool) list) \<Rightarrow> 'fs filesystem \<Rightarrow> 'fs \<Rightarrow> path \<Rightarrow> path list outcome" where
  "scan_with iterate env fs dir_path =
     (case fs_exists env fs dir_path of
        Throws e \<Rightarrow> Throws e
      | Ok ex \<Rightarrow>
          if \<not> ex then Ok []
          else
            (case fs_is_directory env fs dir_path of
               Throws e \<Rightarrow> Throws e
             | Ok is_dir \<Rightarrow>
                 if \<not> is_dir then Ok []
                 else Ok (map fst (filter snd (iterate fs dir_path)))))"

definition scan_directory :: "'fs filesystem \<Rightarrow> 'fs \<Rightarrow> path \<Rightarrow> path list outcome" where
  "scan_directory env fs dir_path = scan_with (fs_iterate env) env fs dir_path"

definition scan_directory_recursive :: "'fs filesystem \<Rightarrow> 'fs \<Rightarrow> path \<Rightarrow> path list outcome" where
  "scan_directory_recursive env fs dir_path = scan_with (fs_iterate_recursive env) env fs dir_path"

section \<open>actions.cpp\<close>

record Command =
  action :: string
  pattern :: string
  source :: string
  destination :: string
  dry_run :: bool
  force :: bool
  recursive :: bool
  verbose :: bool

text \<open>The counters are kept as unbounded naturals.\<close>

record FileOpResult =
  success :: bool
  operation :: string
  message :: string
  error_message :: string
  files_scanned :: nat
  files_matched :: nat
  files_affected :: nat
  errors :: "string list"
  start_time :: nat
  end_time :: nat

text \<open>A default-initialised \<open>FileOpResult\<close>.\<close>

definition default_result :: FileOpResult where
  "default_result =
     \<lparr>success = False, operation = [], message = [], error_message = [],
      files_scanned = 0, files_matched = 0, files_affected = 0, errors = [],
      start_time = 0, end_time = 0\<rparr>"

text \<open>
  The steps the three batch handlers share, written once: the choice of the scanner,
  the filter loop and the per-file loop.
\<close>

definition scan_files :: "'fs filesystem \<Rightarrow> 'fs \<Rightarrow> bool \<Rightarrow> path \<Rightarrow> path list outcome" where
  "scan_files env fs rec source_path =
     (if rec then scan_directory_recursive env fs source_path
      else scan_directory env fs source_path)"


definition matching_files :: "string \<Rightarrow> path list \<Rightarrow> path list" where
  "matching_files pat files = filter (\<lambda>file. matches_pattern (filename_of file) pat) files"

text \<open>
  In the per-file loop \<open>act\<close> is the library call on one file,
  \<open>verb\<close> the word in the error text, \<open>n\<close> the running count and \<open>errs\<close> the errors
  collected so far.
\<close>

fun process_files ::
  "('fs \<Rightarrow> path \<Rightarrow> 'r outcome \<times> 'fs) \<Rightarrow> string \<Rightarrow> path list \<Rightarrow> 'fs \<Rightarrow> nat \<Rightarrow> string list
     \<Rightarrow> nat \<times> string list \<times> 'fs" where
  "process_files act verb [] fs n errs = (n, errs, fs)"
| "process_files act verb (file # rest) fs n errs =
     (case act fs file of
        (Ok r, fs') \<Rightarrow> process_files act verb rest fs' (n + 1) errs
      | (Throws e, fs') \<Rightarrow>
          process_files act verb rest fs' n (errs @ [''Failed to '' @ verb @ '' '' @ file @ '': '' @ e]))"

definition move_files :: "'fs filesystem \<Rightarrow> 'fs \<Rightarrow> Command \<Rightarrow> FileOpResult \<times> 'fs" where
  "move_files env fs cmd =
     (let result = default_result\<lparr>operation := ''move'', start_time := time_start env\<rparr>;
          source_path = expand_path (home_dir env) (source cmd);
          dest_path = expand_path (home_dir env) (destination cmd)
      in if \<not> is_safe_directory source_path then
           (result\<lparr>success := False,
                   error_message := ''Source directory is not safe to operate on''\<rparr>, fs)
         else if \<not> is_safe_directory dest_path then
           (result\<lparr>success := False,
                   error_message := ''Destination directory is not safe to operate on''\<rparr>, fs)
         else
           (case scan_files env fs (recursive cmd) source_path of
              Throws e \<Rightarrow>
                (result\<lparr>success := False, error_message := ''Move operation failed: '' @ e,
                        end_time := time_end env\<rparr>, fs)
            | Ok files \<Rightarrow>
                (let matching = matching_files (pattern cmd) files;
                     result = result\<lparr>files_scanned := length files,
                                     files_matched := length matching\<rparr>
                 in if dry_run cmd then
                      (result\<lparr>message := ''Would move '' @ to_string (length matching) @ '' files'',
                              success := True\<rparr>, fs)
                    else
                      (case process_files
                              (\<lambda>s file. fs_rename env s file (path_append dest_path (filename_of file)))
                              ''move'' matching fs 0 [] of
                         (moved_count, errs, fs') \<Rightarrow>
                           (result\<lparr>errors := errs, files_affected := moved_count,
                                   message := ''Successfully moved '' @ to_string moved_count @ '' files'',
                                   success := True, end_time := time_end env\<rparr>, fs')))))"

definition copy_files :: "'fs filesystem \<Rightarrow> 'fs \<Rightarrow> Command \<Rightarrow> FileOpResult \<times> 'fs" where
  "copy_files env fs cmd =
     (let result = default_result\<lparr>operation := ''copy'', start_time := time_start env\<rparr>;
          source_path = expand_path (home_dir env) (source cmd);
          dest_path = expand_path (home_dir env) (destination cmd)
      in if \<not> is_safe_directory source_path then
           (result\<lparr>success := False,
                   error_message := ''Source directory is not safe to operate on''\<rparr>, fs)
         else if \<not> is_safe_directory dest_path then
           (result\<lparr>success := False,
                   error_message := ''Destination directory is not safe to operate on''\<rparr>, fs)
         else
           (case scan_files env fs (recursive cmd) source_path of
              Throws e \<Rightarrow>
                (result\<lparr>success := False, error_message := ''Copy operation failed: '' @ e,
                        end_time := time_end env\<rparr>, fs)
            | Ok files \<Rightarrow>
                (let matching = matching_files (pattern cmd) files;
                     result = result\<lparr>files_scanned := length files,
                                     files_matched := length matching\<rparr>
                 in if dry_run cmd then
                      (result\<lparr>message := ''Would copy '' @ to_string (length matching) @ '' files'',
                              success := True\<rparr>, fs)
                    else
                      (case process_files
                              (\<lambda>s file. fs_copy_file env s file (path_append dest_path (filename_of file)))
                              ''copy'' matching fs 0 [] of
                         (copied_count, errs, fs') \<Rightarrow>
                           (result\<lparr>errors := errs, files_affected := copied_count,
                                   message := ''Successfully copied '' @ to_string copied_count @ '' files'',
                                   success := True, end_time := time_end env\<rparr>, fs')))))"

definition delete_files :: "'fs filesystem \<Rightarrow> 'fs \<Rightarrow> Command \<Rightarrow> FileOpResult \<times> 'fs" where
  "delete_files env fs cmd =
     (let result = default_result\<lparr>operation := ''delete'', start_time := time_start env\<rparr>;
          source_path = expand_path (home_dir env) (source cmd)
      in if \<not> is_safe_directory source_path then
           (result\<lparr>success := False,
                   error_message := ''Source directory is not safe to operate on''\<rparr>, fs)
         else
           (case scan_files env fs (recursive cmd) source_path of
              Throws e \<Rightarrow>
                (result\<lparr>success := False, error_message := ''Delete operation failed: '' @ e,
                        end_time := time_end env\<rparr>, fs)
            | Ok files \<Rightarrow>
                (let matching = matching_files (pattern cmd) files;
                     result = result\<lparr>files_scanned := length files,
                                     files_matched := length matching\<rparr>
                 in if dry_run cmd then
                      (result\<lparr>message := ''Would delete '' @ to_string (length matching) @ '' files'',
                              success := True\<rparr>, fs)
                    else
                      (case process_files (fs_remove env) ''delete'' matching fs 0 [] of
                         (deleted_count, errs, fs') \<Rightarrow>
                           (result\<lparr>errors := errs, files_affected := deleted_count,
                                   message := ''Successfully deleted '' @ to_string deleted_count @ '' files'',
                                   success := True, end_time := time_end env\<rparr>, fs')))))"

definition create_folder :: "'fs filesystem \<Rightarrow> 'fs \<Rightarrow> Command \<Rightarrow> FileOpResult \<times> 'fs" where
  "create_folder env fs cmd =
     (let result = default_result\<lparr>operation := ''create_folder'', start_time := time_start env\<rparr>;
          folder_path = expand_path (home_dir env) (destination cmd)
      in if \<not> is_safe_directory (parent_path folder_path) then
           (result\<lparr>success := False,
                   error_message := ''Parent directory is not safe to operate on''\<rparr>, fs)
         else if dry_run cmd then
           (result\<lparr>message := ''Would create folder: '' @ folder_path, success := True\<rparr>, fs)
         else
           (case fs_create_directories env fs folder_path of
              (Ok created, fs') \<Rightarrow>
                (result\<lparr>files_affected := 1,
                        message := ''Successfully created folder: '' @ folder_path,
                        success := True, end_time := time_end env\<rparr>, fs')
            | (Throws e, fs') \<Rightarrow>
                (result\<lparr>success := False,
                        error_message := ''Create folder operation failed: '' @ e,
                        end_time := time_end env\<rparr>, fs')))"

definition validate_command :: "Command \<Rightarrow> bool" where
  "validate_command cmd =
     (if action cmd = [] then False
      else if action cmd = ''move'' \<or> action cmd = ''copy''
        then source cmd \<noteq> [] \<and> destination cmd \<noteq> []
      else if action cmd = ''delete'' then source cmd \<noteq> []
      else if action cmd = ''create_folder'' then destination cmd \<noteq> []
      else False)"

definition execute_command :: "'fs filesystem \<Rightarrow> 'fs \<Rightarrow> Command \<Rightarrow> FileOpResult \<times> 'fs" where
  "execute_command env fs cmd =
     (if \<not> validate_command cmd then
        (default_result\<lparr>success := False, error_message := ''Invalid command''\<rparr>, fs)
      else if action cmd = ''move'' then move_files env fs cmd
      else if action cmd = ''copy'' then copy_files env fs cmd
      else if action cmd = ''delete'' then delete_files env fs cmd
      else if action cmd = ''create_folder'' then create_folder env fs cmd
      else (default_result\<lparr>success := False,
                          error_message := ''Unknown action: '' @ action cmd\<rparr>, fs))"

section \<open>Describing a batch\<close>

text \<open>
  What the library call did on each file of a batch, in order: the file, and the text of
  the exception when the call threw.  The state is threaded as the loop threads it.
\<close>

fun attempts ::
  "('fs \<Rightarrow> path \<Rightarrow> 'r outcome \<times> 'fs) \<Rightarrow> path list \<Rightarrow> 'fs \<Rightarrow> (path \<times> string option) list" where
  "attempts act [] fs = []"
| "attempts act (file # rest) fs =
     (case act fs file of
        (Ok r, fs') \<Rightarrow> (file, None) # attempts act rest fs'
      | (Throws e, fs') \<Rightarrow> (file, Some e) # attempts act rest fs')"

fun final_state :: "('fs \<Rightarrow> path \<Rightarrow> 'r outcome \<times> 'fs) \<Rightarrow> path list \<Rightarrow> 'fs \<Rightarrow> 'fs" where
  "final_state act [] fs = fs"
| "final_state act (file # rest) fs = final_state act rest (snd (act fs file))"

fun failure_texts :: "string \<Rightarrow> (path \<times> string option) list \<Rightarrow> string list" where
  "failure_texts verb [] = []"
| "failure_texts verb ((file, None) # rest) = failure_texts verb rest"
| "failure_texts verb ((file, Some e) # rest) =
     (''Failed to '' @ verb @ '' '' @ file @ '': '' @ e) # failure_texts verb rest"

definition succeeded :: "(path \<times> string option) list \<Rightarrow> path list" where
  "succeeded tr = map fst (filter (\<lambda>a. snd a = None) tr)"

text \<open>
  The report of a batch that ran to its end: success, one attempt per matched file in
  order, the successes counted, one error text per failure, and the state the last call
  left.
\<close>

definition batch_report ::
  "string \<Rightarrow> ('fs \<Rightarrow> path \<Rightarrow> 'r outcome \<times> 'fs) \<Rightarrow> path list \<Rightarrow> 'fs \<Rightarrow> FileOpResult \<times> 'fs \<Rightarrow> bool" where
  "batch_report verb act matching fs res =
     (let r = fst res; tr = attempts act matching fs
      in success r \<and> error_message r = [] \<and>
         files_matched r = length matching \<and>
         map fst tr = matching \<and>
         files_affected r = length (succeeded tr) \<and>
         errors r = failure_texts verb tr \<and>
         files_affected r + length (errors r) = files_matched r \<and>
         snd res = final_state act matching fs)"

text \<open>
  The report of a handler that reached its filter loop on the scanned \<open>files\<close>: the
  files it keeps are those whose last component matches the pattern, and these are the
  files it counts, previews or acts on.
\<close>

definition filename_filter_report ::
  "string \<Rightarrow> ('fs \<Rightarrow> path \<Rightarrow> 'r outcome \<times> 'fs) \<Rightarrow> path list \<Rightarrow> string \<Rightarrow> bool \<Rightarrow> 'fs
     \<Rightarrow> FileOpResult \<times> 'fs \<Rightarrow> bool" where
  "filename_filter_report verb act files pat dry fs res =
     (let r = fst res;
          kept = filter (\<lambda>f. matches_pattern (filename_of f) pat) files
      in success r \<and>
         files_scanned r = length files \<and>
         files_matched r = length kept \<and>
         (if dry then
            snd res = fs \<and> files_affected r = 0 \<and> errors r = [] \<and>
            message r = ''Would '' @ verb @ '' '' @ to_string (length kept) @ '' files''
          else
            snd res = final_state act kept fs \<and>
            files_affected r = length (succeeded (attempts act kept fs)) \<and>
            errors r = failure_texts verb (attempts act kept fs)))"

text \<open>
  The report of a dry run: nothing is touched and nothing is counted as affected; when
  the directories are safe, the counts and the preview text if the scan returned, and a
  failure if it threw.
\<close>

definition dry_run_report ::
  "string \<Rightarrow> bool \<Rightarrow> path list outcome \<Rightarrow> string \<Rightarrow> 'fs \<Rightarrow> FileOpResult \<times> 'fs \<Rightarrow> bool" where
  "dry_run_report verb safe scanned pat fs res =
     (let r = fst res
      in snd res = fs \<and> files_affected r = 0 \<and> errors r = [] \<and>
         (safe \<longrightarrow>
            (case scanned of
               Ok files \<Rightarrow>
                 success r \<and> error_message r = [] \<and>
                 files_scanned r = length files \<and>
                 files_matched r = length (matching_files pat files) \<and>
                 message r = ''Would '' @ verb @ '' '' @ to_string (files_matched r) @ '' files''
             | Throws e \<Rightarrow>
                 \<not> success r \<and> error_message r \<noteq> [] \<and> message r = [] \<and>
                 files_scanned r = 0 \<and> files_matched r = 0)))"

text \<open>
  The report of a handler that refused an unsafe directory: no success, an error text,
  and nothing scanned, matched, affected or recorded.
\<close>

definition refused :: "FileOpResult \<Rightarrow> bool" where
  "refused r =
     (\<not> success r \<and> error_message r \<noteq> [] \<and> files_scanned r = 0 \<and> files_matched r = 0 \<and>
      files_affected r = 0 \<and> errors r = [] \<and> message r = [])"

section \<open>A small file system to run the handlers on\<close>

text \<open>
  The state is the list of the regular files.  Every directory exists, except that the
  status of \<open>/locked\<close> cannot be read; a file named \<open>b.txt\<close> can be neither moved nor
  copied nor removed; creating a directory succeeds and reports whether it was new, the
  directories created being remembered with a trailing separator.
\<close>

definition sample_env :: "path list filesystem" where
  "sample_env =
     \<lparr>home_dir = Some ''/home/user'',
      fs_exists = (\<lambda>s p. if p = ''/locked'' then Throws ''Permission denied'' else Ok True),
      fs_is_directory = (\<lambda>s p. Ok True),
      fs_iterate = (\<lambda>s p. map (\<lambda>f. (f, True)) (filter (\<lambda>f. parent_path f = p) s)),
      fs_iterate_recursive =
        (\<lambda>s p. map (\<lambda>f. (f, True)) (filter (\<lambda>f. prefix (p @ ''/'') f) s)),
      fs_rename =
        (\<lambda>s a b. if filename_of a = ''b.txt'' then (Throws ''Operation not permitted'', s)
                  else (Ok (), map (\<lambda>f. if f = a then b else f) s)),
      fs_copy_file =
        (\<lambda>s a b. if filename_of a = ''b.txt'' then (Throws ''Operation not permitted'', s)
                  else (Ok True, if b \<in> set s then s else s @ [b])),
      fs_remove =
        (\<lambda>s a. if filename_of a = ''b.txt'' then (Throws ''Operation not permitted'', s)
                else (Ok (a \<in> set s), filter (\<lambda>f. f \<noteq> a) s)),
      fs_create_directories =
        (\<lambda>s p. (Ok (p @ ''/'' \<notin> set s), if p @ ''/'' \<in> set s then s else s @ [p @ ''/''])),
      time_start = 100,
      time_end = 200\<rparr>"

definition sample_files :: "path list" where
  "sample_files = [''/data/a.txt'', ''/data/b.txt'', ''/data/c.txt'', ''/data/notes.md'',
                   ''/data/sub/d.txt'']"

definition sample_command :: Command where
  "sample_command =
     \<lparr>action = ''move'', pattern = ''*.txt'', source = ''/data'', destination = ''/backup'',
      dry_run = False, force = False, recursive = False, verbose = False\<rparr>"

section \<open>Facts about the pattern matcher\<close>

subsection \<open>The translated expression always compiles\<close>

lemma regex_tokens_star:
  "regex_tokens (CHR ''.'' # CHR ''*'' # rest) =
   map_option (\<lambda>ts. TAtom AnyChar # TStar # ts) (regex_tokens rest)"
  by (simp add: backslash_def option.map_comp comp_def)

lemma regex_tokens_dot:
  "regex_tokens (CHR ''.'' # rest) = map_option (\<lambda>ts. TAtom AnyChar # ts) (regex_tokens rest)"
  by (simp add: backslash_def)

lemma regex_tokens_esc:
  "c \<in> set escaped_chars \<Longrightarrow>
   regex_tokens (backslash # c # rest) = map_option (\<lambda>ts. TAtom (Lit c) # ts) (regex_tokens rest)"
  by (auto simp add: escaped_chars_def regex_syntax_chars_def)

lemma regex_tokens_plain:
  "c \<notin> set escaped_chars \<Longrightarrow> c \<noteq> CHR ''*'' \<Longrightarrow> c \<noteq> CHR ''?'' \<Longrightarrow>
   regex_tokens (c # rest) = map_option (\<lambda>ts. TAtom (Lit c) # ts) (regex_tokens rest)"
  by (simp add: escaped_chars_def regex_syntax_chars_def)

lemma append_as_cons: "(@) [x] = (#) x" "(@) [x, y] = (\<lambda>ts. x # y # ts)"
  by (rule ext, simp)+

lemma regex_tokens_escape_char:
  "regex_tokens (escape_char c @ rest) = map_option ((@) (glob_tokens c)) (regex_tokens rest)"
proof -
  consider "c = CHR ''*''" | "c = CHR ''?''"
    | "c \<noteq> CHR ''*''" "c \<noteq> CHR ''?''" "c \<in> set escaped_chars"
    | "c \<noteq> CHR ''*''" "c \<noteq> CHR ''?''" "c \<notin> set escaped_chars" by blast
  then show ?thesis
  proof cases
    case 1
    then show ?thesis
      by (simp add: escape_char_def glob_tokens_def regex_tokens_star append_as_cons del: regex_tokens.simps)
  next
    case 2
    then show ?thesis by (simp add: escape_char_def glob_tokens_def regex_tokens_dot append_as_cons del: regex_tokens.simps)
  next
    case 3
    then show ?thesis by (simp add: escape_char_def glob_tokens_def regex_tokens_esc append_as_cons del: regex_tokens.simps)
  next
    case 4
    then show ?thesis by (simp add: escape_char_def glob_tokens_def regex_tokens_plain append_as_cons del: regex_tokens.simps)
  qed
qed

lemma regex_tokens_escape_glob:
  "regex_tokens (escape_glob s) = Some (concat (map glob_tokens s))"
  by (induction s) (simp_all add: escape_glob_def regex_tokens_escape_char del: regex_tokens.simps(2))

lemma glob_tokens_head:
  "concat (map glob_tokens s) = [] \<or> (\<exists>a ts. concat (map glob_tokens s) = TAtom a # ts)"
  by (cases s) (simp_all add: glob_tokens_def)

lemma regex_items_glob_tokens_step:
  "ts = [] \<or> (\<exists>a ts'. ts = TAtom a # ts') \<Longrightarrow>
   regex_items (glob_tokens c @ ts) = map_option ((#) (glob_item c)) (regex_items ts)"
  by (auto simp: glob_tokens_def glob_item_def)

lemma regex_items_glob_tokens:
  "regex_items (concat (map glob_tokens s)) = Some (map glob_item s)"
proof (induction s)
  case Nil
  show ?case by simp
next
  case (Cons c s)
  have "regex_items (glob_tokens c @ concat (map glob_tokens s)) =
        map_option ((#) (glob_item c)) (regex_items (concat (map glob_tokens s)))"
    by (rule regex_items_glob_tokens_step) (rule glob_tokens_head)
  with Cons show ?case by simp
qed

lemma regex_compile_escape_glob:
  "regex_compile (escape_glob s) =
     (if nfa_states (map glob_item s) \<le> regex_state_limit then Some (map glob_item s) else None)"
  by (simp add: regex_compile_def regex_tokens_escape_glob regex_items_glob_tokens)


subsection \<open>Facts about regex_match\<close>

lemma regex_match_lit_mem:
  "regex_match f r \<Longrightarrow> One (Lit x) \<in> set r \<Longrightarrow> \<exists>c\<in>set f. tolower_c c = tolower_c x"
  by (induction f r rule: regex_match.induct) auto



subsection \<open>Case folding and separators\<close>


lemma tolower_c_slash: "tolower_c c = slash \<longleftrightarrow> c = slash"
  by (auto simp add: tolower_c_def slash_def split: option.splits if_splits)





lemma matches_glob_pattern_items:
  "matches_glob_pattern f p =
     (let q = (if contains_str p ''**'' then replace_double_star p else p)
      in if nfa_states (map glob_item q) \<le> regex_state_limit
         then regex_match f (map glob_item q)
         else contains_str f p)"
  by (simp add: matches_glob_pattern_def glob_regex_source_def regex_compile_escape_glob Let_def)

lemma replace_double_star_slash:
  "slash \<in> set s \<Longrightarrow> slash \<in> set (replace_double_star s)"
  by (induction s rule: replace_double_star.induct) (auto simp: slash_def)

lemma glob_item_slash: "glob_item slash = One (Lit slash)"
  by (simp add: glob_item_def slash_def)

lemma matches_glob_pattern_slash:
  assumes "slash \<in> set p" and "matches_glob_pattern f p"
  shows "slash \<in> set f"
proof -
  let ?q = "if contains_str p ''**'' then replace_double_star p else p"
  show ?thesis
  proof (cases "nfa_states (map glob_item ?q) \<le> regex_state_limit")
    case True
    have "slash \<in> set ?q" using assms(1) by (simp add: replace_double_star_slash)
    then have "glob_item slash \<in> set (map glob_item ?q)" by (simp only: set_map) (rule imageI)
    then have "One (Lit slash) \<in> set (map glob_item ?q)" by (simp only: glob_item_slash)
    moreover have "regex_match f (map glob_item ?q)"
      using assms(2) True by (simp add: matches_glob_pattern_items Let_def)
    ultimately obtain c where "c \<in> set f" "tolower_c c = tolower_c slash"
      using regex_match_lit_mem by blast
    then show ?thesis by (simp add: tolower_c_slash [of slash, simplified] tolower_c_slash)
  next
    case False
    then have "sublist p f"
      using assms(2) by (simp add: matches_glob_pattern_items Let_def contains_str_def)
    then have "set p \<subseteq> set f" by (rule set_mono_sublist)
    with assms(1) show ?thesis by blast
  qed
qed

lemma matches_pattern_slash:
  assumes "slash \<in> set p" and "slash \<notin> set f"
  shows "\<not> matches_pattern f p"
proof
  assume m: "matches_pattern f p"
  from assms(1) have ne: "p \<noteq> []" by auto
  show False
  proof (cases "CHR ''*'' \<in> set p \<or> CHR ''?'' \<in> set p")
    case True
    with m ne have "matches_glob_pattern f p" by (simp add: matches_pattern_def)
    with assms show False using matches_glob_pattern_slash by blast
  next
    case False
    with m ne have "suffix p f \<or> f = p"
      by (auto simp add: matches_pattern_def ends_with_def split: if_splits)
    then have "set p \<subseteq> set f" by (auto simp: suffix_def)
    with assms show False by blast
  qed
qed

lemma filename_of_no_slash: "slash \<notin> set (filename_of p)"
proof
  assume "slash \<in> set (filename_of p)"
  then have "slash \<in> set (takeWhile (\<lambda>c. c \<noteq> slash) (rev p))" by (simp add: filename_of_def)
  then show False by (auto dest: set_takeWhileD)
qed

lemma matching_files_slash: "slash \<in> set pat \<Longrightarrow> matching_files pat files = []"
  by (simp add: matching_files_def matches_pattern_slash filename_of_no_slash)

subsection \<open>The matcher and the glob of the specification\<close>























section \<open>The glob matcher on the pattern with two stars\<close>

text \<open>
  C1.  The claim asks that two stars stand for any run of characters, separators
  included, so that every filename ending in \<open>.png\<close> matches \<open>**/*.png\<close>.  The code
  writes a dot and a star for the two stars, as its comment says, and the loop that
  follows escapes that dot: the pattern becomes the expression \<open>\..*/.*\.png\<close>.  So
  \<open>dir/a.png\<close> does not match, nor does \<open>a.png\<close>, while \<open>./a.png\<close> does; and the
  pattern of two stars alone matches \<open>.abc\<close> and not \<open>abc\<close>.
\<close>

theorem double_star_translation:
  "glob_regex_source ''**/*.png'' = [backslash] @ ''..*/.*'' @ [backslash] @ ''.png'' \<and>
   \<not> matches_glob_pattern ''dir/a.png'' ''**/*.png'' \<and>
   \<not> matches_glob_pattern ''a.png'' ''**/*.png'' \<and>
   matches_glob_pattern ''./a.png'' ''**/*.png'' \<and>
   \<not> matches_glob_pattern ''abc'' ''**'' \<and>
   matches_glob_pattern ''.abc'' ''**''"
  by code_simp

section \<open>The dispatch of matches_pattern\<close>




section \<open>The safety policy\<close>

subsection \<open>Path comparison\<close>

lemma is_system_directory_loop_iff:
  "is_system_directory_loop ds p \<longleftrightarrow> (\<exists>d\<in>set ds. prefix d p)"
  by (induction ds) (auto simp: starts_with_def)

lemma path_segments_names_empty:
  "filter (\<lambda>seg. seg \<noteq> []) (path_segments cur p) = [] \<longleftrightarrow> cur = [] \<and> (\<forall>c\<in>set p. c = slash)"
  by (induction p arbitrary: cur) auto

lemma path_elements_empty: "path_elements p = [] \<longleftrightarrow> (\<forall>c\<in>set p. c = slash)"
  by (simp add: path_elements_def Let_def path_segments_names_empty)

lemma path_eq_root: "path_eq p ''/'' \<longleftrightarrow> p \<noteq> [] \<and> (\<forall>c\<in>set p. c = slash)"
proof -
  have s: "''/'' = [slash]" by (simp add: slash_def)
  have e: "path_elements [slash] = []" by (simp add: path_elements_empty)
  have r: "has_root_directory [slash]" by (simp add: has_root_directory_def)
  have "path_eq p [slash] \<longleftrightarrow> has_root_directory p \<and> (\<forall>c\<in>set p. c = slash)"
    by (simp add: path_eq_def e r path_elements_empty)
  also have "\<dots> \<longleftrightarrow> p \<noteq> [] \<and> (\<forall>c\<in>set p. c = slash)"
    by (cases p) (auto simp: has_root_directory_def)
  finally show ?thesis by (simp only: s)
qed

lemma path_segments_no_slash: "slash \<notin> set p \<Longrightarrow> path_segments cur p = [rev cur @ p]"
  by (induction p arbitrary: cur) auto

lemma path_segments_split:
  "slash \<notin> set a \<Longrightarrow> path_segments cur (a @ slash # b) = (rev cur @ a) # path_segments [] b"
  by (induction a arbitrary: cur) auto

lemma path_segments_last_name:
  "cur \<noteq> [] \<or> b \<noteq> [] \<Longrightarrow> b = [] \<or> last b \<noteq> slash \<Longrightarrow>
   filter (\<lambda>seg. seg \<noteq> []) (path_segments cur b) \<noteq> []"
  by (induction b arbitrary: cur) (auto split: if_splits)

lemma path_elements_single:
  assumes "slash \<notin> set x" and "x \<noteq> []"
  shows "path_elements x = [x]"
  using assms by (cases x rule: rev_cases) (auto simp: path_elements_def path_segments_no_slash)

lemma path_elements_single_inv:
  assumes e: "path_elements p = [x]" and nr: "\<not> has_root_directory p"
  shows "p = x"
proof (cases "slash \<in> set p")
  case False
  then show ?thesis using e
    by (auto simp: path_elements_def path_segments_no_slash Let_def split: if_splits)
next
  case True
  then obtain a b where p: "p = a @ slash # b" and a: "slash \<notin> set a"
    by (auto dest: split_list_first)
  from nr p have ane: "a \<noteq> []" by (cases a) (auto simp: has_root_directory_def)
  let ?names = "filter (\<lambda>seg. seg \<noteq> []) (path_segments [] p)"
  have names: "?names = a # filter (\<lambda>seg. seg \<noteq> []) (path_segments [] b)"
    using a ane by (simp add: p path_segments_split)
  show ?thesis
  proof (cases "last p = slash")
    case True
    then have "path_elements p = ?names @ [[]]"
      using names p by (simp add: path_elements_def Let_def)
    with e names show ?thesis by simp
  next
    case False
    then have "b \<noteq> []" "last b \<noteq> slash" using p by (auto split: if_splits)
    then have "filter (\<lambda>seg. seg \<noteq> []) (path_segments [] b) \<noteq> []"
      using path_segments_last_name [of "[]" b] by simp
    moreover have "path_elements p = ?names" using False by (simp add: path_elements_def Let_def)
    ultimately show ?thesis using e names by simp
  qed
qed

lemma path_eq_single:
  assumes "slash \<notin> set x" and "x \<noteq> []"
  shows "path_eq p x \<longleftrightarrow> p = x"
proof
  assume "path_eq p x"
  moreover have "\<not> has_root_directory x" using assms by (cases x) (auto simp: has_root_directory_def)
  ultimately have "path_elements p = [x]" "\<not> has_root_directory p"
    using assms by (simp_all add: path_eq_def path_elements_single)
  then show "p = x" by (rule path_elements_single_inv)
next
  assume "p = x"
  then show "path_eq p x" by (simp add: path_eq_def)
qed

subsection \<open>is_safe_directory\<close>

text \<open>
  C5.  \<open>is_safe_directory\<close> answers false exactly for the root directory (in any of its
  spellings: one separator or several), for the two drive roots, and for a path whose
  string starts with one of the listed system directories; it answers true for every other
  path.  It is false for \<open>/\<close>, \<open>/bin\<close>, \<open>/usr/local\<close> and \<open>/usrlocal\<close>, and true
  for \<open>/home/user\<close> and \<open>/tmp\<close>.
\<close>

theorem is_safe_directory_policy:
  "(is_safe_directory p \<longleftrightarrow>
      \<not> (p \<noteq> [] \<and> (\<forall>c\<in>set p. c = CHR ''/'')) \<and>
      p \<noteq> ''C:'' @ [backslash] \<and> p \<noteq> ''D:'' @ [backslash] \<and>
      \<not> (\<exists>d\<in>set [''/bin'', ''/sbin'', ''/usr'', ''/etc'', ''/var'', ''/lib'', ''/opt'',
                    ''C:'' @ [backslash] @ ''Windows'',
                    ''C:'' @ [backslash] @ ''Program Files'',
                    ''C:'' @ [backslash] @ ''Program Files (x86)'']. prefix d p)) \<and>
   \<not> is_safe_directory ''/'' \<and> \<not> is_safe_directory ''/bin'' \<and>
   \<not> is_safe_directory ''/usr/local'' \<and> \<not> is_safe_directory ''/usrlocal'' \<and>
   is_safe_directory ''/home/user'' \<and> is_safe_directory ''/tmp''"
proof -
  have c: "path_eq p (''C:'' @ [backslash]) \<longleftrightarrow> p = ''C:'' @ [backslash]"
    by (rule path_eq_single) (simp_all add: slash_def backslash_def)
  have d: "path_eq p (''D:'' @ [backslash]) \<longleftrightarrow> p = ''D:'' @ [backslash]"
    by (rule path_eq_single) (simp_all add: slash_def backslash_def)
  have general: "is_safe_directory p \<longleftrightarrow>
      \<not> (p \<noteq> [] \<and> (\<forall>c\<in>set p. c = CHR ''/'')) \<and>
      p \<noteq> ''C:'' @ [backslash] \<and> p \<noteq> ''D:'' @ [backslash] \<and>
      \<not> (\<exists>d\<in>set system_dirs. prefix d p)"
    unfolding is_safe_directory_def is_system_directory_def is_system_directory_loop_iff
      path_eq_root c d slash_def by auto
  have examples: "\<not> is_safe_directory ''/'' \<and> \<not> is_safe_directory ''/bin'' \<and>
   \<not> is_safe_directory ''/usr/local'' \<and> \<not> is_safe_directory ''/usrlocal'' \<and>
   is_safe_directory ''/home/user'' \<and> is_safe_directory ''/tmp''"
    by code_simp
  from general examples show ?thesis unfolding system_dirs_def by simp
qed

text \<open>C5, witness: a doubled root, two prefixed paths and a path with \<open>/bin\<close> inside.\<close>

theorem is_safe_directory_policy_witness:
  "\<not> is_safe_directory ''//'' \<and> \<not> is_safe_directory ''/etc/passwd'' \<and>
   \<not> is_safe_directory ''/optional'' \<and> is_safe_directory ''/home/user/bin''"
  using is_safe_directory_policy [of "''//''"] is_safe_directory_policy [of "''/etc/passwd''"]
    is_safe_directory_policy [of "''/optional''"] is_safe_directory_policy [of "''/home/user/bin''"]
  by (simp add: backslash_def)


section \<open>The batch handlers\<close>

subsection \<open>The per-file loop\<close>

lemma process_files_attempts:
  "process_files act verb files fs n errs =
     (n + length (succeeded (attempts act files fs)),
      errs @ failure_texts verb (attempts act files fs),
      final_state act files fs)"
proof (induction files arbitrary: fs n errs)
  case Nil
  show ?case by (simp add: succeeded_def)
next
  case (Cons f rest)
  show ?case
  proof (cases "act fs f")
    case (Pair out fs')
    then show ?thesis by (cases out) (simp_all add: Cons succeeded_def)
  qed
qed

lemma attempts_files: "map fst (attempts act files fs) = files"
proof (induction files arbitrary: fs)
  case Nil
  show ?case by simp
next
  case (Cons f rest)
  show ?case
  proof (cases "act fs f")
    case (Pair out fs')
    then show ?thesis by (cases out) (simp_all add: Cons)
  qed
qed

lemma attempts_count:
  "length (succeeded tr) + length (failure_texts verb tr) = length tr"
  by (induction verb tr rule: failure_texts.induct) (simp_all add: succeeded_def)

lemma batch_report_process_files:
  assumes "process_files act verb matching fs 0 [] = (n, errs, fs')"
    and "success r" and "error_message r = []" and "files_matched r = length matching"
    and "files_affected r = n" and "errors r = errs"
  shows "batch_report verb act matching fs (r, fs')"
proof -
  let ?tr = "attempts act matching fs"
  from assms(1) have n: "n = length (succeeded ?tr)" and e: "errs = failure_texts verb ?tr"
    and f: "fs' = final_state act matching fs"
    by (simp_all add: process_files_attempts)
  have "length ?tr = length matching" using attempts_files [of act matching fs]
    by (metis length_map)
  then have "n + length errs = length matching"
    using attempts_count [of ?tr verb] n e by simp
  then show ?thesis
    using assms(2-6) n e f by (simp add: batch_report_def Let_def attempts_files)
qed

lemma refused_source:
  "refused (default_result\<lparr>operation := op, start_time := t, success := False,
      error_message := ''Source directory is not safe to operate on''\<rparr>)"
  by (simp add: refused_def default_result_def)

lemma refused_destination:
  "refused (default_result\<lparr>operation := op, start_time := t, success := False,
      error_message := ''Destination directory is not safe to operate on''\<rparr>)"
  by (simp add: refused_def default_result_def)

subsection \<open>Partial failure\<close>

text \<open>
  C2.  In a run that is not a dry run, on a safe source (and, for move and copy, a safe
  destination) whose scan returned, each handler tries every matched file in scan order;
  a call that throws adds exactly one text naming the file to \<open>errors\<close> and the loop
  goes on; the handler reports success, \<open>files_affected\<close> is the number of calls that
  returned, and \<open>files_affected\<close> plus the number of errors is \<open>files_matched\<close>.
\<close>

theorem batch_partial_failure:
  assumes "\<not> dry_run cmd"
    and "is_safe_directory (expand_path (home_dir env) (source cmd))"
    and "scan_files env fs (recursive cmd) (expand_path (home_dir env) (source cmd)) = Ok files"
  shows
    "(is_safe_directory (expand_path (home_dir env) (destination cmd)) \<longrightarrow>
        batch_report ''move''
          (\<lambda>s f. fs_rename env s f
             (path_append (expand_path (home_dir env) (destination cmd)) (filename_of f)))
          (matching_files (pattern cmd) files) fs (move_files env fs cmd) \<and>
        batch_report ''copy''
          (\<lambda>s f. fs_copy_file env s f
             (path_append (expand_path (home_dir env) (destination cmd)) (filename_of f)))
          (matching_files (pattern cmd) files) fs (copy_files env fs cmd)) \<and>
     batch_report ''delete'' (fs_remove env)
       (matching_files (pattern cmd) files) fs (delete_files env fs cmd)"
proof -
  let ?m = "matching_files (pattern cmd) files"
  let ?dest = "expand_path (home_dir env) (destination cmd)"
  let ?mv = "\<lambda>s f. fs_rename env s f (path_append ?dest (filename_of f))"
  let ?cp = "\<lambda>s f. fs_copy_file env s f (path_append ?dest (filename_of f))"
  have mv: "batch_report ''move'' ?mv ?m fs (move_files env fs cmd)"
    if safe: "is_safe_directory ?dest"
  proof -
    obtain n errs fs' where p: "process_files ?mv ''move'' ?m fs 0 [] = (n, errs, fs')"
      by (rule prod_cases3)
    have "\<exists>r. move_files env fs cmd = (r, fs') \<and> success r \<and> error_message r = [] \<and>
        files_matched r = length ?m \<and> files_affected r = n \<and> errors r = errs"
      using assms safe p by (simp add: move_files_def Let_def default_result_def)
    then obtain r where "move_files env fs cmd = (r, fs')" "success r" "error_message r = []"
      "files_matched r = length ?m" "files_affected r = n" "errors r = errs" by blast
    then show ?thesis using batch_report_process_files [OF p] by simp
  qed
  have cp: "batch_report ''copy'' ?cp ?m fs (copy_files env fs cmd)"
    if safe: "is_safe_directory ?dest"
  proof -
    obtain n errs fs' where p: "process_files ?cp ''copy'' ?m fs 0 [] = (n, errs, fs')"
      by (rule prod_cases3)
    have "\<exists>r. copy_files env fs cmd = (r, fs') \<and> success r \<and> error_message r = [] \<and>
        files_matched r = length ?m \<and> files_affected r = n \<and> errors r = errs"
      using assms safe p by (simp add: copy_files_def Let_def default_result_def)
    then obtain r where "copy_files env fs cmd = (r, fs')" "success r" "error_message r = []"
      "files_matched r = length ?m" "files_affected r = n" "errors r = errs" by blast
    then show ?thesis using batch_report_process_files [OF p] by simp
  qed
  have rm: "batch_report ''delete'' (fs_remove env) ?m fs (delete_files env fs cmd)"
  proof -
    obtain n errs fs' where p: "process_files (fs_remove env) ''delete'' ?m fs 0 [] = (n, errs, fs')"
      by (rule prod_cases3)
    have "\<exists>r. delete_files env fs cmd = (r, fs') \<and> success r \<and> error_message r = [] \<and>
        files_matched r = length ?m \<and> files_affected r = n \<and> errors r = errs"
      using assms p by (simp add: delete_files_def Let_def default_result_def)
    then obtain r where "delete_files env fs cmd = (r, fs')" "success r" "error_message r = []"
      "files_matched r = length ?m" "files_affected r = n" "errors r = errs" by blast
    then show ?thesis using batch_report_process_files [OF p] by simp
  qed
  from mv cp rm show ?thesis by blast
qed

text \<open>
  C2, witness: three matched files, of which \<open>b.txt\<close> cannot be moved; the move reports
  success, two files affected and the one error for \<open>b.txt\<close>.
\<close>

theorem batch_partial_failure_witness:
  "\<not> dry_run sample_command \<and>
   is_safe_directory (expand_path (home_dir sample_env) (source sample_command)) \<and>
   is_safe_directory (expand_path (home_dir sample_env) (destination sample_command)) \<and>
   scan_files sample_env sample_files (recursive sample_command)
     (expand_path (home_dir sample_env) (source sample_command)) =
     Ok [''/data/a.txt'', ''/data/b.txt'', ''/data/c.txt'', ''/data/notes.md''] \<and>
   matching_files (pattern sample_command)
     [''/data/a.txt'', ''/data/b.txt'', ''/data/c.txt'', ''/data/notes.md''] =
     [''/data/a.txt'', ''/data/b.txt'', ''/data/c.txt''] \<and>
   batch_report ''move''
     (\<lambda>s f. fs_rename sample_env s f
        (path_append (expand_path (home_dir sample_env) (destination sample_command)) (filename_of f)))
     (matching_files (pattern sample_command)
        [''/data/a.txt'', ''/data/b.txt'', ''/data/c.txt'', ''/data/notes.md''])
     sample_files (move_files sample_env sample_files sample_command) \<and>
   success (fst (move_files sample_env sample_files sample_command)) \<and>
   files_matched (fst (move_files sample_env sample_files sample_command)) = 3 \<and>
   files_affected (fst (move_files sample_env sample_files sample_command)) = 2 \<and>
   errors (fst (move_files sample_env sample_files sample_command)) =
     [''Failed to move /data/b.txt: Operation not permitted'']"
proof -
  have h1: "\<not> dry_run sample_command" by code_simp
  have h2: "is_safe_directory (expand_path (home_dir sample_env) (source sample_command))"
    by code_simp
  have h3: "scan_files sample_env sample_files (recursive sample_command)
     (expand_path (home_dir sample_env) (source sample_command)) =
     Ok [''/data/a.txt'', ''/data/b.txt'', ''/data/c.txt'', ''/data/notes.md'']"
    by code_simp
  have h4: "is_safe_directory (expand_path (home_dir sample_env) (destination sample_command))"
    by code_simp
  have m: "matching_files (pattern sample_command)
     [''/data/a.txt'', ''/data/b.txt'', ''/data/c.txt'', ''/data/notes.md''] =
     [''/data/a.txt'', ''/data/b.txt'', ''/data/c.txt'']"
    by code_simp
  have v: "success (fst (move_files sample_env sample_files sample_command)) \<and>
   files_matched (fst (move_files sample_env sample_files sample_command)) = 3 \<and>
   files_affected (fst (move_files sample_env sample_files sample_command)) = 2 \<and>
   errors (fst (move_files sample_env sample_files sample_command)) =
     [''Failed to move /data/b.txt: Operation not permitted'']"
    by code_simp
  from batch_partial_failure [OF h1 h2 h3] h1 h2 h3 h4 m v show ?thesis by blast
qed


subsection \<open>Unsafe directories\<close>

text \<open>
  C3.  When the expanded source or the expanded destination is unsafe, move and copy
  report no success and an error text, with nothing scanned, matched, affected or
  recorded in \<open>errors\<close>, and leave the file system as it was.  No scan is made: the
  report is the same on every file system with the same home directory and clock.
\<close>

theorem unsafe_directory_refused:
  assumes "\<not> is_safe_directory (expand_path (home_dir env) (source cmd)) \<or>
           \<not> is_safe_directory (expand_path (home_dir env) (destination cmd))"
  shows "refused (fst (move_files env fs cmd)) \<and> snd (move_files env fs cmd) = fs \<and>
         refused (fst (copy_files env fs cmd)) \<and> snd (copy_files env fs cmd) = fs \<and>
         (\<forall>env' fs'. home_dir env' = home_dir env \<and> time_start env' = time_start env \<longrightarrow>
            fst (move_files env' fs' cmd) = fst (move_files env fs cmd) \<and>
            fst (copy_files env' fs' cmd) = fst (copy_files env fs cmd))"
proof -
  have mv: "refused (fst (move_files env fs cmd)) \<and> snd (move_files env fs cmd) = fs"
    using assms by (auto simp: move_files_def Let_def refused_def default_result_def)
  have cp: "refused (fst (copy_files env fs cmd)) \<and> snd (copy_files env fs cmd) = fs"
    using assms by (auto simp: copy_files_def Let_def refused_def default_result_def)
  have ind: "fst (move_files env' fs' cmd) = fst (move_files env fs cmd) \<and>
            fst (copy_files env' fs' cmd) = fst (copy_files env fs cmd)"
    if "home_dir env' = home_dir env \<and> time_start env' = time_start env"
    for env' fs'
    using assms that by (auto simp: move_files_def copy_files_def Let_def)
  from mv cp ind show ?thesis by blast
qed

text \<open>C3, witness: a move and a copy into \<open>/usr/local/share\<close>.\<close>

theorem unsafe_directory_refused_witness:
  "\<not> is_safe_directory
       (expand_path (home_dir sample_env) (destination (sample_command\<lparr>destination := ''/usr/local/share''\<rparr>))) \<and>
   fst (move_files sample_env sample_files (sample_command\<lparr>destination := ''/usr/local/share''\<rparr>)) =
     \<lparr>success = False, operation = ''move'', message = [],
      error_message = ''Destination directory is not safe to operate on'',
      files_scanned = 0, files_matched = 0, files_affected = 0, errors = [],
      start_time = 100, end_time = 0\<rparr> \<and>
   refused (fst (move_files sample_env sample_files (sample_command\<lparr>destination := ''/usr/local/share''\<rparr>))) \<and>
   snd (move_files sample_env sample_files (sample_command\<lparr>destination := ''/usr/local/share''\<rparr>)) =
     sample_files \<and>
   refused (fst (copy_files sample_env sample_files (sample_command\<lparr>destination := ''/usr/local/share''\<rparr>))) \<and>
   snd (copy_files sample_env sample_files (sample_command\<lparr>destination := ''/usr/local/share''\<rparr>)) =
     sample_files"
proof -
  have h: "\<not> is_safe_directory
       (expand_path (home_dir sample_env) (destination (sample_command\<lparr>destination := ''/usr/local/share''\<rparr>)))"
    by code_simp
  have v: "fst (move_files sample_env sample_files (sample_command\<lparr>destination := ''/usr/local/share''\<rparr>)) =
     \<lparr>success = False, operation = ''move'', message = [],
      error_message = ''Destination directory is not safe to operate on'',
      files_scanned = 0, files_matched = 0, files_affected = 0, errors = [],
      start_time = 100, end_time = 0\<rparr>"
    by code_simp
  from unsafe_directory_refused [of sample_env "sample_command\<lparr>destination := ''/usr/local/share''\<rparr>" sample_files]
    h v show ?thesis by blast
qed

section \<open>Validation and dispatch\<close>

text \<open>
  C6.  A command is valid exactly when its action is move or copy with source and
  destination non-empty, or delete with the source non-empty, or create_folder with the
  destination non-empty.  On an invalid command \<open>execute_command\<close> returns a result
  whose only fields set are \<open>success = false\<close> and the error text
  \<open>Invalid command\<close>, and touches nothing.
\<close>

theorem validate_command_rules:
  "(validate_command cmd \<longleftrightarrow>
      (action cmd = ''move'' \<or> action cmd = ''copy'') \<and> source cmd \<noteq> [] \<and> destination cmd \<noteq> [] \<or>
      action cmd = ''delete'' \<and> source cmd \<noteq> [] \<or>
      action cmd = ''create_folder'' \<and> destination cmd \<noteq> []) \<and>
   (\<not> validate_command cmd \<longrightarrow>
      execute_command env fs cmd =
        (\<lparr>success = False, operation = [], message = [], error_message = ''Invalid command'',
          files_scanned = 0, files_matched = 0, files_affected = 0, errors = [],
          start_time = 0, end_time = 0\<rparr>, fs))"
  by (auto simp: validate_command_def execute_command_def default_result_def)

text \<open>
  C6, witness: a move without destination, a delete without destination and an unknown
  action.
\<close>

theorem validate_command_rules_witness:
  "\<not> validate_command (sample_command\<lparr>destination := []\<rparr>) \<and>
   validate_command (sample_command\<lparr>action := ''delete'', destination := []\<rparr>) \<and>
   \<not> validate_command (sample_command\<lparr>action := ''rename''\<rparr>) \<and>
   execute_command sample_env sample_files (sample_command\<lparr>destination := []\<rparr>) =
     (\<lparr>success = False, operation = [], message = [], error_message = ''Invalid command'',
       files_scanned = 0, files_matched = 0, files_affected = 0, errors = [],
       start_time = 0, end_time = 0\<rparr>, sample_files)"
proof -
  have a: "action (sample_command\<lparr>destination := []\<rparr>) = ''move'' \<and>
           destination (sample_command\<lparr>destination := []\<rparr>) = []" by code_simp
  have b: "action (sample_command\<lparr>action := ''delete'', destination := []\<rparr>) = ''delete'' \<and>
           source (sample_command\<lparr>action := ''delete'', destination := []\<rparr>) \<noteq> []" by code_simp
  have c: "action (sample_command\<lparr>action := ''rename''\<rparr>) = ''rename''" by code_simp
  have n1: "\<not> validate_command (sample_command\<lparr>destination := []\<rparr>)"
    using validate_command_rules [of "sample_command\<lparr>destination := []\<rparr>" sample_env sample_files] a
    by (simp del: Command.simps)
  then have e: "execute_command sample_env sample_files (sample_command\<lparr>destination := []\<rparr>) =
     (\<lparr>success = False, operation = [], message = [], error_message = ''Invalid command'',
       files_scanned = 0, files_matched = 0, files_affected = 0, errors = [],
       start_time = 0, end_time = 0\<rparr>, sample_files)"
    using validate_command_rules [of "sample_command\<lparr>destination := []\<rparr>" sample_env sample_files]
    by blast
  have v2: "validate_command (sample_command\<lparr>action := ''delete'', destination := []\<rparr>)"
    using validate_command_rules
      [of "sample_command\<lparr>action := ''delete'', destination := []\<rparr>" sample_env sample_files] b
    by (simp del: Command.simps)
  have n3: "\<not> validate_command (sample_command\<lparr>action := ''rename''\<rparr>)"
    using validate_command_rules [of "sample_command\<lparr>action := ''rename''\<rparr>" sample_env sample_files] c
    by (simp del: Command.simps)
  from n1 e v2 n3 show ?thesis by blast
qed


section \<open>Dry runs\<close>

lemma scan_files_clock:
  "scan_files (env\<lparr>time_start := t1, time_end := t2\<rparr>) fs rec p = scan_files env fs rec p"
  by (simp add: scan_files_def scan_directory_def scan_directory_recursive_def scan_with_def
      split: outcome.splits)

text \<open>
  C7 (as stated, refuted).  The claim promises success for every dry run on safe
  directories.  The two tests at the head of the scanner are outside its \<open>try\<close> block:
  when \<open>exists\<close> throws on the source directory, the exception reaches the handler,
  which reports failure and no preview.
\<close>

theorem dry_run_preview_counterexample:
  "dry_run (sample_command\<lparr>source := ''/locked'', dry_run := True\<rparr>) \<and>
   is_safe_directory (expand_path (home_dir sample_env)
      (source (sample_command\<lparr>source := ''/locked'', dry_run := True\<rparr>))) \<and>
   is_safe_directory (expand_path (home_dir sample_env)
      (destination (sample_command\<lparr>source := ''/locked'', dry_run := True\<rparr>))) \<and>
   \<not> success (fst (move_files sample_env sample_files
      (sample_command\<lparr>source := ''/locked'', dry_run := True\<rparr>))) \<and>
   message (fst (move_files sample_env sample_files
      (sample_command\<lparr>source := ''/locked'', dry_run := True\<rparr>))) = []"
  by code_simp

text \<open>
  C7 (amended).  A dry run of move, copy or delete leaves the file system as it was, keeps
  \<open>files_affected\<close> at 0 and records no error.  On safe directories it reports success
  and the preview \<open>Would move/copy/delete N files\<close>, \<open>N\<close> being \<open>files_matched\<close>,
  provided the scan returns; when the scan throws it reports failure with an error text.
  Running the same dry run again on the state it returned, at any later time, gives the
  same \<open>files_scanned\<close> and \<open>files_matched\<close>.
\<close>

theorem dry_run_preview:
  assumes "dry_run cmd"
  shows
    "dry_run_report ''move''
       (is_safe_directory (expand_path (home_dir env) (source cmd)) \<and>
        is_safe_directory (expand_path (home_dir env) (destination cmd)))
       (scan_files env fs (recursive cmd) (expand_path (home_dir env) (source cmd)))
       (pattern cmd) fs (move_files env fs cmd) \<and>
     dry_run_report ''copy''
       (is_safe_directory (expand_path (home_dir env) (source cmd)) \<and>
        is_safe_directory (expand_path (home_dir env) (destination cmd)))
       (scan_files env fs (recursive cmd) (expand_path (home_dir env) (source cmd)))
       (pattern cmd) fs (copy_files env fs cmd) \<and>
     dry_run_report ''delete''
       (is_safe_directory (expand_path (home_dir env) (source cmd)))
       (scan_files env fs (recursive cmd) (expand_path (home_dir env) (source cmd)))
       (pattern cmd) fs (delete_files env fs cmd) \<and>
     (\<forall>h\<in>{move_files, copy_files, delete_files}. \<forall>t1 t2.
        files_scanned (fst (h (env\<lparr>time_start := t1, time_end := t2\<rparr>) (snd (h env fs cmd)) cmd)) =
          files_scanned (fst (h env fs cmd)) \<and>
        files_matched (fst (h (env\<lparr>time_start := t1, time_end := t2\<rparr>) (snd (h env fs cmd)) cmd)) =
          files_matched (fst (h env fs cmd)))"
proof -
  let ?scan = "scan_files env fs (recursive cmd) (expand_path (home_dir env) (source cmd))"
  have mv: "dry_run_report ''move''
       (is_safe_directory (expand_path (home_dir env) (source cmd)) \<and>
        is_safe_directory (expand_path (home_dir env) (destination cmd)))
       ?scan (pattern cmd) fs (move_files env fs cmd)"
    using assms
    by (cases ?scan) (simp_all add: dry_run_report_def move_files_def Let_def default_result_def)
  have cp: "dry_run_report ''copy''
       (is_safe_directory (expand_path (home_dir env) (source cmd)) \<and>
        is_safe_directory (expand_path (home_dir env) (destination cmd)))
       ?scan (pattern cmd) fs (copy_files env fs cmd)"
    using assms
    by (cases ?scan) (simp_all add: dry_run_report_def copy_files_def Let_def default_result_def)
  have rm: "dry_run_report ''delete''
       (is_safe_directory (expand_path (home_dir env) (source cmd)))
       ?scan (pattern cmd) fs (delete_files env fs cmd)"
    using assms
    by (cases ?scan) (simp_all add: dry_run_report_def delete_files_def Let_def default_result_def)
  have s1: "snd (move_files env fs cmd) = fs" using mv by (simp add: dry_run_report_def Let_def)
  have s2: "snd (copy_files env fs cmd) = fs" using cp by (simp add: dry_run_report_def Let_def)
  have s3: "snd (delete_files env fs cmd) = fs" using rm by (simp add: dry_run_report_def Let_def)
  have i1: "files_scanned (fst (move_files (env\<lparr>time_start := t1, time_end := t2\<rparr>) fs cmd)) =
          files_scanned (fst (move_files env fs cmd)) \<and>
        files_matched (fst (move_files (env\<lparr>time_start := t1, time_end := t2\<rparr>) fs cmd)) =
          files_matched (fst (move_files env fs cmd))" for t1 t2
    using assms
    by (cases ?scan) (simp_all add: move_files_def Let_def default_result_def scan_files_clock)
  have i2: "files_scanned (fst (copy_files (env\<lparr>time_start := t1, time_end := t2\<rparr>) fs cmd)) =
          files_scanned (fst (copy_files env fs cmd)) \<and>
        files_matched (fst (copy_files (env\<lparr>time_start := t1, time_end := t2\<rparr>) fs cmd)) =
          files_matched (fst (copy_files env fs cmd))" for t1 t2
    using assms
    by (cases ?scan) (simp_all add: copy_files_def Let_def default_result_def scan_files_clock)
  have i3: "files_scanned (fst (delete_files (env\<lparr>time_start := t1, time_end := t2\<rparr>) fs cmd)) =
          files_scanned (fst (delete_files env fs cmd)) \<and>
        files_matched (fst (delete_files (env\<lparr>time_start := t1, time_end := t2\<rparr>) fs cmd)) =
          files_matched (fst (delete_files env fs cmd))" for t1 t2
    using assms
    by (cases ?scan) (simp_all add: delete_files_def Let_def default_result_def scan_files_clock)
  from mv cp rm i1 i2 i3 show ?thesis by (simp add: s1 s2 s3)
qed

text \<open>C7, witness: the preview of a move of three matched files among four scanned.\<close>

theorem dry_run_preview_witness:
  "dry_run (sample_command\<lparr>dry_run := True\<rparr>) \<and>
   dry_run_report ''move''
     (is_safe_directory (expand_path (home_dir sample_env) (source (sample_command\<lparr>dry_run := True\<rparr>))) \<and>
      is_safe_directory (expand_path (home_dir sample_env) (destination (sample_command\<lparr>dry_run := True\<rparr>))))
     (scan_files sample_env sample_files (recursive (sample_command\<lparr>dry_run := True\<rparr>))
        (expand_path (home_dir sample_env) (source (sample_command\<lparr>dry_run := True\<rparr>))))
     (pattern (sample_command\<lparr>dry_run := True\<rparr>)) sample_files
     (move_files sample_env sample_files (sample_command\<lparr>dry_run := True\<rparr>)) \<and>
   move_files sample_env sample_files (sample_command\<lparr>dry_run := True\<rparr>) =
     (\<lparr>success = True, operation = ''move'', message = ''Would move 3 files'',
       error_message = [], files_scanned = 4, files_matched = 3, files_affected = 0,
       errors = [], start_time = 100, end_time = 0\<rparr>, sample_files)"
proof -
  have h: "dry_run (sample_command\<lparr>dry_run := True\<rparr>)" by code_simp
  have v: "move_files sample_env sample_files (sample_command\<lparr>dry_run := True\<rparr>) =
     (\<lparr>success = True, operation = ''move'', message = ''Would move 3 files'',
       error_message = [], files_scanned = 4, files_matched = 3, files_affected = 0,
       errors = [], start_time = 100, end_time = 0\<rparr>, sample_files)"
    by code_simp
  from dry_run_preview [OF h, of sample_env sample_files] h v show ?thesis by blast
qed


section \<open>create_folder\<close>

lemma expand_path_no_slash: "slash \<notin> set d \<Longrightarrow> expand_path h d = d"
  by (auto simp: expand_path_def starts_with_def prefix_def slash_def)

lemma parent_path_no_slash:
  assumes "slash \<notin> set d"
  shows "parent_path d = []"
proof (cases "path_elements d = []")
  case True
  then have "\<forall>c\<in>set d. c = slash" by (simp only: path_elements_empty)
  with assms have "d = []" by (cases d) auto
  with True show ?thesis by (simp add: parent_path_def)
next
  case False
  have dw: "dropWhile (\<lambda>c. c \<noteq> slash) (rev d) = []"
    using assms by (auto simp: dropWhile_eq_Nil_conv)
  show ?thesis by (simp add: parent_path_def Let_def dw False)
qed

lemma is_safe_directory_empty: "is_safe_directory []"
  by code_simp

text \<open>
  C10.  When the destination holds no separator, its parent path is empty, the empty path
  is safe, and \<open>create_folder\<close> does not refuse: a dry run reports the folder it would
  create, and otherwise \<open>create_directories\<close> is called on the destination, the handler
  succeeding exactly when that call returns.
\<close>

theorem create_folder_relative_name:
  assumes "slash \<notin> set (destination cmd)"
  shows "parent_path (expand_path (home_dir env) (destination cmd)) = [] \<and>
         is_safe_directory (parent_path (expand_path (home_dir env) (destination cmd))) \<and>
         error_message (fst (create_folder env fs cmd)) \<noteq> ''Parent directory is not safe to operate on'' \<and>
         (dry_run cmd \<longrightarrow>
            success (fst (create_folder env fs cmd)) \<and>
            message (fst (create_folder env fs cmd)) = ''Would create folder: '' @ destination cmd \<and>
            snd (create_folder env fs cmd) = fs) \<and>
         (\<not> dry_run cmd \<longrightarrow>
            snd (create_folder env fs cmd) = snd (fs_create_directories env fs (destination cmd)) \<and>
            (success (fst (create_folder env fs cmd)) \<longleftrightarrow>
               (\<exists>created. fst (fs_create_directories env fs (destination cmd)) = Ok created)))"
proof -
  have e: "expand_path (home_dir env) (destination cmd) = destination cmd"
    using assms by (rule expand_path_no_slash)
  have p: "parent_path (destination cmd) = []" using assms by (rule parent_path_no_slash)
  show ?thesis
  proof (cases "fs_create_directories env fs (destination cmd)")
    case (Pair out fs')
    then show ?thesis
      by (cases out)
        (simp_all add: e p is_safe_directory_empty create_folder_def Let_def default_result_def)
  qed
qed

text \<open>C10, witness: creating \<open>reports\<close> in the current directory.\<close>

theorem create_folder_relative_name_witness:
  "slash \<notin> set (destination (sample_command\<lparr>destination := ''reports''\<rparr>)) \<and>
   create_folder sample_env sample_files (sample_command\<lparr>destination := ''reports''\<rparr>) =
     (\<lparr>success = True, operation = ''create_folder'',
       message = ''Successfully created folder: reports'', error_message = [],
       files_scanned = 0, files_matched = 0, files_affected = 1, errors = [],
       start_time = 100, end_time = 200\<rparr>, sample_files @ [''reports/'']) \<and>
   parent_path (expand_path (home_dir sample_env)
      (destination (sample_command\<lparr>destination := ''reports''\<rparr>))) = []"
proof -
  have h: "slash \<notin> set (destination (sample_command\<lparr>destination := ''reports''\<rparr>))"
    by code_simp
  have v: "create_folder sample_env sample_files (sample_command\<lparr>destination := ''reports''\<rparr>) =
     (\<lparr>success = True, operation = ''create_folder'',
       message = ''Successfully created folder: reports'', error_message = [],
       files_scanned = 0, files_matched = 0, files_affected = 1, errors = [],
       start_time = 100, end_time = 200\<rparr>, sample_files @ [''reports/''])"
    by code_simp
  from create_folder_relative_name [OF h, of sample_env sample_files] h v show ?thesis by blast
qed

text \<open>
  C8.  \<open>create_folder\<close> tests the parent of the expanded destination and not the
  destination: \<open>/x\<close> is safe and refused because its parent is the root, and a folder
  named \<open>C:\Windows\<close>, itself on the deny list, passes because its parent is empty.
  With a safe parent and no dry run the handler calls \<open>create_directories\<close> on the
  whole path and, whenever that call returns, whether it created something or found the
  directory in place, reports success with \<open>files_affected = 1\<close> and no error.
\<close>

theorem create_folder_checks_parent:
  "(\<not> is_safe_directory (parent_path (expand_path (home_dir env) (destination cmd))) \<longrightarrow>
      create_folder env fs cmd =
        (\<lparr>success = False, operation = ''create_folder'', message = [],
          error_message = ''Parent directory is not safe to operate on'',
          files_scanned = 0, files_matched = 0, files_affected = 0, errors = [],
          start_time = time_start env, end_time = 0\<rparr>, fs)) \<and>
   (is_safe_directory (parent_path (expand_path (home_dir env) (destination cmd))) \<and> \<not> dry_run cmd \<longrightarrow>
      snd (create_folder env fs cmd) =
        snd (fs_create_directories env fs (expand_path (home_dir env) (destination cmd))) \<and>
      (\<forall>created.
         fst (fs_create_directories env fs (expand_path (home_dir env) (destination cmd))) = Ok created \<longrightarrow>
         fst (create_folder env fs cmd) =
           \<lparr>success = True, operation = ''create_folder'',
            message = ''Successfully created folder: '' @ expand_path (home_dir env) (destination cmd),
            error_message = [], files_scanned = 0, files_matched = 0, files_affected = 1,
            errors = [], start_time = time_start env, end_time = time_end env\<rparr>)) \<and>
   is_safe_directory ''/x'' \<and> \<not> is_safe_directory (parent_path ''/x'') \<and>
   \<not> is_safe_directory (''C:'' @ [backslash] @ ''Windows'') \<and>
   is_safe_directory (parent_path (''C:'' @ [backslash] @ ''Windows''))"
proof -
  have ex: "is_safe_directory ''/x'' \<and> \<not> is_safe_directory (parent_path ''/x'') \<and>
   \<not> is_safe_directory (''C:'' @ [backslash] @ ''Windows'') \<and>
   is_safe_directory (parent_path (''C:'' @ [backslash] @ ''Windows''))"
    by code_simp
  show ?thesis
  proof (cases "fs_create_directories env fs (expand_path (home_dir env) (destination cmd))")
    case (Pair out fs')
    then show ?thesis using ex
      by (cases out) (simp_all add: create_folder_def Let_def default_result_def)
  qed
qed

text \<open>
  C8, witness: \<open>/x\<close> is refused; \<open>~/new/deep\<close> is created, and creating it a second
  time on the resulting state gives the same report.
\<close>

theorem create_folder_checks_parent_witness:
  "create_folder sample_env sample_files (sample_command\<lparr>destination := ''/x''\<rparr>) =
     (\<lparr>success = False, operation = ''create_folder'', message = [],
       error_message = ''Parent directory is not safe to operate on'',
       files_scanned = 0, files_matched = 0, files_affected = 0, errors = [],
       start_time = 100, end_time = 0\<rparr>, sample_files) \<and>
   fst (create_folder sample_env sample_files (sample_command\<lparr>destination := ''~/new/deep''\<rparr>)) =
     \<lparr>success = True, operation = ''create_folder'',
      message = ''Successfully created folder: /home/user/new/deep'',
      error_message = [], files_scanned = 0, files_matched = 0, files_affected = 1,
      errors = [], start_time = 100, end_time = 200\<rparr> \<and>
   fst (create_folder sample_env
          (snd (create_folder sample_env sample_files (sample_command\<lparr>destination := ''~/new/deep''\<rparr>)))
          (sample_command\<lparr>destination := ''~/new/deep''\<rparr>)) =
     \<lparr>success = True, operation = ''create_folder'',
      message = ''Successfully created folder: /home/user/new/deep'',
      error_message = [], files_scanned = 0, files_matched = 0, files_affected = 1,
      errors = [], start_time = 100, end_time = 200\<rparr>"
proof -
  let ?c = "sample_command\<lparr>destination := ''~/new/deep''\<rparr>"
  let ?s1 = "snd (create_folder sample_env sample_files ?c)"
  have u: "\<not> is_safe_directory (parent_path (expand_path (home_dir sample_env)
      (destination (sample_command\<lparr>destination := ''/x''\<rparr>))))" by code_simp
  have s: "is_safe_directory (parent_path (expand_path (home_dir sample_env) (destination ?c))) \<and>
      \<not> dry_run ?c" by code_simp
  have p: "expand_path (home_dir sample_env) (destination ?c) = ''/home/user/new/deep''"
    by code_simp
  have c1: "fst (fs_create_directories sample_env sample_files
      (expand_path (home_dir sample_env) (destination ?c))) = Ok True" by code_simp
  have c2: "fst (fs_create_directories sample_env ?s1
      (expand_path (home_dir sample_env) (destination ?c))) = Ok False" by code_simp
  have t: "time_start sample_env = 100 \<and> time_end sample_env = 200" by code_simp
  have a: "create_folder sample_env sample_files (sample_command\<lparr>destination := ''/x''\<rparr>) =
     (\<lparr>success = False, operation = ''create_folder'', message = [],
       error_message = ''Parent directory is not safe to operate on'',
       files_scanned = 0, files_matched = 0, files_affected = 0, errors = [],
       start_time = 100, end_time = 0\<rparr>, sample_files)"
  proof -
    from create_folder_checks_parent
      [of sample_env "sample_command\<lparr>destination := ''/x''\<rparr>" sample_files] u
    have "create_folder sample_env sample_files (sample_command\<lparr>destination := ''/x''\<rparr>) =
     (\<lparr>success = False, operation = ''create_folder'', message = [],
       error_message = ''Parent directory is not safe to operate on'',
       files_scanned = 0, files_matched = 0, files_affected = 0, errors = [],
       start_time = time_start sample_env, end_time = 0\<rparr>, sample_files)"
      by blast
    then show ?thesis by (simp only: t)
  qed
  have b: "fst (create_folder sample_env sample_files ?c) =
     \<lparr>success = True, operation = ''create_folder'',
      message = ''Successfully created folder: /home/user/new/deep'',
      error_message = [], files_scanned = 0, files_matched = 0, files_affected = 1,
      errors = [], start_time = 100, end_time = 200\<rparr>"
  proof -
    from create_folder_checks_parent [of sample_env ?c sample_files] s c1
    have "fst (create_folder sample_env sample_files ?c) =
           \<lparr>success = True, operation = ''create_folder'',
            message = ''Successfully created folder: '' @ expand_path (home_dir sample_env) (destination ?c),
            error_message = [], files_scanned = 0, files_matched = 0, files_affected = 1,
            errors = [], start_time = time_start sample_env, end_time = time_end sample_env\<rparr>"
      by blast
    then show ?thesis by (simp only: p t append_Cons append_Nil)
  qed
  have c: "fst (create_folder sample_env ?s1 ?c) =
     \<lparr>success = True, operation = ''create_folder'',
      message = ''Successfully created folder: /home/user/new/deep'',
      error_message = [], files_scanned = 0, files_matched = 0, files_affected = 1,
      errors = [], start_time = 100, end_time = 200\<rparr>"
  proof -
    from create_folder_checks_parent [of sample_env ?c ?s1] s c2
    have "fst (create_folder sample_env ?s1 ?c) =
           \<lparr>success = True, operation = ''create_folder'',
            message = ''Successfully created folder: '' @ expand_path (home_dir sample_env) (destination ?c),
            error_message = [], files_scanned = 0, files_matched = 0, files_affected = 1,
            errors = [], start_time = time_start sample_env, end_time = time_end sample_env\<rparr>"
      by blast
    then show ?thesis by (simp only: p t append_Cons append_Nil)
  qed
  from a b c show ?thesis by blast
qed

section \<open>The pattern is applied to the filename\<close>

lemma move_files_filename_filter:
  assumes "is_safe_directory (expand_path (home_dir env) (source cmd))"
    and "is_safe_directory (expand_path (home_dir env) (destination cmd))"
    and "scan_files env fs (recursive cmd) (expand_path (home_dir env) (source cmd)) = Ok files"
  shows "filename_filter_report ''move''
           (\<lambda>s f. fs_rename env s f
              (path_append (expand_path (home_dir env) (destination cmd)) (filename_of f)))
           files (pattern cmd) (dry_run cmd) fs (move_files env fs cmd)"
  using assms
  by (simp add: move_files_def Let_def default_result_def filename_filter_report_def
      matching_files_def process_files_attempts)

lemma copy_files_filename_filter:
  assumes "is_safe_directory (expand_path (home_dir env) (source cmd))"
    and "is_safe_directory (expand_path (home_dir env) (destination cmd))"
    and "scan_files env fs (recursive cmd) (expand_path (home_dir env) (source cmd)) = Ok files"
  shows "filename_filter_report ''copy''
           (\<lambda>s f. fs_copy_file env s f
              (path_append (expand_path (home_dir env) (destination cmd)) (filename_of f)))
           files (pattern cmd) (dry_run cmd) fs (copy_files env fs cmd)"
  using assms
  by (simp add: copy_files_def Let_def default_result_def filename_filter_report_def
      matching_files_def process_files_attempts)

lemma delete_files_filename_filter:
  assumes "is_safe_directory (expand_path (home_dir env) (source cmd))"
    and "scan_files env fs (recursive cmd) (expand_path (home_dir env) (source cmd)) = Ok files"
  shows "filename_filter_report ''delete'' (fs_remove env)
           files (pattern cmd) (dry_run cmd) fs (delete_files env fs cmd)"
  using assms
  by (simp add: delete_files_def Let_def default_result_def filename_filter_report_def
      matching_files_def process_files_attempts)

lemma move_files_separator:
  "slash \<in> set (pattern cmd) \<Longrightarrow>
      files_matched (fst (move_files env fs cmd)) = 0 \<and>
      files_affected (fst (move_files env fs cmd)) = 0 \<and>
      errors (fst (move_files env fs cmd)) = [] \<and> snd (move_files env fs cmd) = fs"
  by (cases "scan_files env fs (recursive cmd) (expand_path (home_dir env) (source cmd))")
    (simp_all add: move_files_def Let_def default_result_def matching_files_slash)

lemma copy_files_separator:
  "slash \<in> set (pattern cmd) \<Longrightarrow>
      files_matched (fst (copy_files env fs cmd)) = 0 \<and>
      files_affected (fst (copy_files env fs cmd)) = 0 \<and>
      errors (fst (copy_files env fs cmd)) = [] \<and> snd (copy_files env fs cmd) = fs"
  by (cases "scan_files env fs (recursive cmd) (expand_path (home_dir env) (source cmd))")
    (simp_all add: copy_files_def Let_def default_result_def matching_files_slash)

lemma delete_files_separator:
  "slash \<in> set (pattern cmd) \<Longrightarrow>
      files_matched (fst (delete_files env fs cmd)) = 0 \<and>
      files_affected (fst (delete_files env fs cmd)) = 0 \<and>
      errors (fst (delete_files env fs cmd)) = [] \<and> snd (delete_files env fs cmd) = fs"
  by (cases "scan_files env fs (recursive cmd) (expand_path (home_dir env) (source cmd))")
    (simp_all add: delete_files_def Let_def default_result_def matching_files_slash)

text \<open>
  C9.  On a safe source (and, for move and copy, a safe destination) whose scan returned,
  under either scanner, each of move, copy and delete keeps exactly the scanned paths
  whose last component matches the pattern: these are the files it counts, previews in a
  dry run, and otherwise acts on in order.  Two scanned paths with the same filename are
  both kept or both left out.  The filename holds no separator, so a pattern with a
  separator matches no scanned file: nothing is matched, affected or touched.
\<close>

theorem pattern_applies_to_filename:
  "(is_safe_directory (expand_path (home_dir env) (source cmd)) \<and>
    scan_files env fs (recursive cmd) (expand_path (home_dir env) (source cmd)) = Ok files \<longrightarrow>
      (is_safe_directory (expand_path (home_dir env) (destination cmd)) \<longrightarrow>
         filename_filter_report ''move''
           (\<lambda>s f. fs_rename env s f
              (path_append (expand_path (home_dir env) (destination cmd)) (filename_of f)))
           files (pattern cmd) (dry_run cmd) fs (move_files env fs cmd) \<and>
         filename_filter_report ''copy''
           (\<lambda>s f. fs_copy_file env s f
              (path_append (expand_path (home_dir env) (destination cmd)) (filename_of f)))
           files (pattern cmd) (dry_run cmd) fs (copy_files env fs cmd)) \<and>
      filename_filter_report ''delete'' (fs_remove env)
        files (pattern cmd) (dry_run cmd) fs (delete_files env fs cmd)) \<and>
   (slash \<in> set (pattern cmd) \<longrightarrow>
      (\<forall>h\<in>{move_files, copy_files, delete_files}.
         files_matched (fst (h env fs cmd)) = 0 \<and> files_affected (fst (h env fs cmd)) = 0 \<and>
         errors (fst (h env fs cmd)) = [] \<and> snd (h env fs cmd) = fs)) \<and>
   matching_files pat scanned = filter (\<lambda>f. matches_pattern (filename_of f) pat) scanned \<and>
   (p \<in> set scanned \<and> q \<in> set scanned \<and> filename_of p = filename_of q \<longrightarrow>
      (p \<in> set (matching_files pat scanned)) = (q \<in> set (matching_files pat scanned))) \<and>
   slash \<notin> set (filename_of p) \<and>
   (slash \<in> set pat \<longrightarrow> \<not> matches_pattern (filename_of p) pat)"
proof -
  have r: "is_safe_directory (expand_path (home_dir env) (source cmd)) \<and>
    scan_files env fs (recursive cmd) (expand_path (home_dir env) (source cmd)) = Ok files \<longrightarrow>
      (is_safe_directory (expand_path (home_dir env) (destination cmd)) \<longrightarrow>
         filename_filter_report ''move''
           (\<lambda>s f. fs_rename env s f
              (path_append (expand_path (home_dir env) (destination cmd)) (filename_of f)))
           files (pattern cmd) (dry_run cmd) fs (move_files env fs cmd) \<and>
         filename_filter_report ''copy''
           (\<lambda>s f. fs_copy_file env s f
              (path_append (expand_path (home_dir env) (destination cmd)) (filename_of f)))
           files (pattern cmd) (dry_run cmd) fs (copy_files env fs cmd)) \<and>
      filename_filter_report ''delete'' (fs_remove env)
        files (pattern cmd) (dry_run cmd) fs (delete_files env fs cmd)"
    using move_files_filename_filter [of env cmd fs files]
      copy_files_filename_filter [of env cmd fs files]
      delete_files_filename_filter [of env cmd fs files]
    by blast
  have s: "slash \<in> set (pattern cmd) \<longrightarrow>
      (\<forall>h\<in>{move_files, copy_files, delete_files}.
         files_matched (fst (h env fs cmd)) = 0 \<and> files_affected (fst (h env fs cmd)) = 0 \<and>
         errors (fst (h env fs cmd)) = [] \<and> snd (h env fs cmd) = fs)"
    using move_files_separator [of cmd env fs] copy_files_separator [of cmd env fs]
      delete_files_separator [of cmd env fs]
    by simp
  have a: "matching_files pat scanned = filter (\<lambda>f. matches_pattern (filename_of f) pat) scanned"
    by (simp add: matching_files_def)
  have b: "p \<in> set scanned \<and> q \<in> set scanned \<and> filename_of p = filename_of q \<longrightarrow>
      (p \<in> set (matching_files pat scanned)) = (q \<in> set (matching_files pat scanned))"
    by (simp add: matching_files_def)
  have c: "slash \<in> set pat \<longrightarrow> \<not> matches_pattern (filename_of p) pat"
    using matches_pattern_slash filename_of_no_slash by blast
  from r s a b c filename_of_no_slash [of p] show ?thesis by blast
qed

text \<open>
  C9, witness: under a recursive scan of five files the pattern \<open>d.txt\<close> keeps
  \<open>/data/sub/d.txt\<close> alone in move, copy and delete, and \<open>sub/*.txt\<close> keeps nothing
  in any of the three.
\<close>

theorem pattern_applies_to_filename_witness:
  "is_safe_directory (expand_path (home_dir sample_env)
      (source (sample_command\<lparr>pattern := ''d.txt'', recursive := True\<rparr>))) \<and>
   is_safe_directory (expand_path (home_dir sample_env)
      (destination (sample_command\<lparr>pattern := ''d.txt'', recursive := True\<rparr>))) \<and>
   scan_files sample_env sample_files (recursive (sample_command\<lparr>pattern := ''d.txt'', recursive := True\<rparr>))
      (expand_path (home_dir sample_env)
         (source (sample_command\<lparr>pattern := ''d.txt'', recursive := True\<rparr>))) = Ok sample_files \<and>
   filter (\<lambda>f. matches_pattern (filename_of f) ''d.txt'') sample_files = [''/data/sub/d.txt''] \<and>
   filename_filter_report ''move''
     (\<lambda>s f. fs_rename sample_env s f
        (path_append (expand_path (home_dir sample_env)
           (destination (sample_command\<lparr>pattern := ''d.txt'', recursive := True\<rparr>))) (filename_of f)))
     sample_files (pattern (sample_command\<lparr>pattern := ''d.txt'', recursive := True\<rparr>))
     (dry_run (sample_command\<lparr>pattern := ''d.txt'', recursive := True\<rparr>)) sample_files
     (move_files sample_env sample_files (sample_command\<lparr>pattern := ''d.txt'', recursive := True\<rparr>)) \<and>
   filename_filter_report ''copy''
     (\<lambda>s f. fs_copy_file sample_env s f
        (path_append (expand_path (home_dir sample_env)
           (destination (sample_command\<lparr>pattern := ''d.txt'', recursive := True\<rparr>))) (filename_of f)))
     sample_files (pattern (sample_command\<lparr>pattern := ''d.txt'', recursive := True\<rparr>))
     (dry_run (sample_command\<lparr>pattern := ''d.txt'', recursive := True\<rparr>)) sample_files
     (copy_files sample_env sample_files (sample_command\<lparr>pattern := ''d.txt'', recursive := True\<rparr>)) \<and>
   filename_filter_report ''delete'' (fs_remove sample_env)
     sample_files (pattern (sample_command\<lparr>pattern := ''d.txt'', recursive := True\<rparr>))
     (dry_run (sample_command\<lparr>pattern := ''d.txt'', recursive := True\<rparr>)) sample_files
     (delete_files sample_env sample_files (sample_command\<lparr>pattern := ''d.txt'', recursive := True\<rparr>)) \<and>
   move_files sample_env sample_files (sample_command\<lparr>pattern := ''d.txt'', recursive := True\<rparr>) =
     (\<lparr>success = True, operation = ''move'', message = ''Successfully moved 1 files'',
       error_message = [], files_scanned = 5, files_matched = 1, files_affected = 1, errors = [],
       start_time = 100, end_time = 200\<rparr>,
      [''/data/a.txt'', ''/data/b.txt'', ''/data/c.txt'', ''/data/notes.md'', ''/backup/d.txt'']) \<and>
   copy_files sample_env sample_files (sample_command\<lparr>pattern := ''d.txt'', recursive := True\<rparr>) =
     (\<lparr>success = True, operation = ''copy'', message = ''Successfully copied 1 files'',
       error_message = [], files_scanned = 5, files_matched = 1, files_affected = 1, errors = [],
       start_time = 100, end_time = 200\<rparr>,
      [''/data/a.txt'', ''/data/b.txt'', ''/data/c.txt'', ''/data/notes.md'', ''/data/sub/d.txt'',
       ''/backup/d.txt'']) \<and>
   delete_files sample_env sample_files (sample_command\<lparr>pattern := ''d.txt'', recursive := True\<rparr>) =
     (\<lparr>success = True, operation = ''delete'', message = ''Successfully deleted 1 files'',
       error_message = [], files_scanned = 5, files_matched = 1, files_affected = 1, errors = [],
       start_time = 100, end_time = 200\<rparr>,
      [''/data/a.txt'', ''/data/b.txt'', ''/data/c.txt'', ''/data/notes.md'']) \<and>
   slash \<in> set (pattern (sample_command\<lparr>pattern := ''sub/*.txt'', recursive := True\<rparr>)) \<and>
   files_matched (fst (move_files sample_env sample_files
     (sample_command\<lparr>pattern := ''sub/*.txt'', recursive := True\<rparr>))) = 0 \<and>
   files_matched (fst (copy_files sample_env sample_files
     (sample_command\<lparr>pattern := ''sub/*.txt'', recursive := True\<rparr>))) = 0 \<and>
   files_matched (fst (delete_files sample_env sample_files
     (sample_command\<lparr>pattern := ''sub/*.txt'', recursive := True\<rparr>))) = 0 \<and>
   snd (delete_files sample_env sample_files
     (sample_command\<lparr>pattern := ''sub/*.txt'', recursive := True\<rparr>)) = sample_files"
proof -
  let ?c = "sample_command\<lparr>pattern := ''d.txt'', recursive := True\<rparr>"
  let ?s = "sample_command\<lparr>pattern := ''sub/*.txt'', recursive := True\<rparr>"
  have h1: "is_safe_directory (expand_path (home_dir sample_env) (source ?c))" by code_simp
  have h2: "is_safe_directory (expand_path (home_dir sample_env) (destination ?c))" by code_simp
  have h3: "scan_files sample_env sample_files (recursive ?c)
      (expand_path (home_dir sample_env) (source ?c)) = Ok sample_files" by code_simp
  have k: "filter (\<lambda>f. matches_pattern (filename_of f) ''d.txt'') sample_files = [''/data/sub/d.txt'']"
    by code_simp
  have v1: "move_files sample_env sample_files ?c =
     (\<lparr>success = True, operation = ''move'', message = ''Successfully moved 1 files'',
       error_message = [], files_scanned = 5, files_matched = 1, files_affected = 1, errors = [],
       start_time = 100, end_time = 200\<rparr>,
      [''/data/a.txt'', ''/data/b.txt'', ''/data/c.txt'', ''/data/notes.md'', ''/backup/d.txt''])"
    by code_simp
  have v2: "copy_files sample_env sample_files ?c =
     (\<lparr>success = True, operation = ''copy'', message = ''Successfully copied 1 files'',
       error_message = [], files_scanned = 5, files_matched = 1, files_affected = 1, errors = [],
       start_time = 100, end_time = 200\<rparr>,
      [''/data/a.txt'', ''/data/b.txt'', ''/data/c.txt'', ''/data/notes.md'', ''/data/sub/d.txt'',
       ''/backup/d.txt''])"
    by code_simp
  have v3: "delete_files sample_env sample_files ?c =
     (\<lparr>success = True, operation = ''delete'', message = ''Successfully deleted 1 files'',
       error_message = [], files_scanned = 5, files_matched = 1, files_affected = 1, errors = [],
       start_time = 100, end_time = 200\<rparr>,
      [''/data/a.txt'', ''/data/b.txt'', ''/data/c.txt'', ''/data/notes.md''])"
    by code_simp
  have sl: "slash \<in> set (pattern ?s)" by code_simp
  note t = pattern_applies_to_filename
    [of sample_env ?c sample_files sample_files "''d.txt''" sample_files "''/data/sub/d.txt''"
      "''/data/sub/d.txt''"]
  from t [THEN conjunct1] h1 h2 h3 have r:
   "filename_filter_report ''move''
     (\<lambda>s f. fs_rename sample_env s f
        (path_append (expand_path (home_dir sample_env) (destination ?c)) (filename_of f)))
     sample_files (pattern ?c) (dry_run ?c) sample_files (move_files sample_env sample_files ?c) \<and>
   filename_filter_report ''copy''
     (\<lambda>s f. fs_copy_file sample_env s f
        (path_append (expand_path (home_dir sample_env) (destination ?c)) (filename_of f)))
     sample_files (pattern ?c) (dry_run ?c) sample_files (copy_files sample_env sample_files ?c) \<and>
   filename_filter_report ''delete'' (fs_remove sample_env)
     sample_files (pattern ?c) (dry_run ?c) sample_files (delete_files sample_env sample_files ?c)"
    by blast
  note u = pattern_applies_to_filename
    [of sample_env ?s sample_files sample_files "''d.txt''" sample_files "''/data/sub/d.txt''"
      "''/data/sub/d.txt''"]
  from u [THEN conjunct2, THEN conjunct1] sl have z:
   "files_matched (fst (move_files sample_env sample_files ?s)) = 0 \<and>
    files_matched (fst (copy_files sample_env sample_files ?s)) = 0 \<and>
    files_matched (fst (delete_files sample_env sample_files ?s)) = 0 \<and>
    snd (delete_files sample_env sample_files ?s) = sample_files"
    by blast
  from h1 h2 h3 k r v1 v2 v3 sl z show ?thesis by blast
qed

end
